theory Spec2Isabelle
  imports Main "HOL-Library.Sublist" "HOL-Library.AList"
begin

section \<open>JavaScript values as the proxy sees them\<close>

text \<open>
  The proxy (\<^verbatim>\<open>src/index.js\<close>) works on values produced by \<^verbatim>\<open>JSON.parse\<close> and on
  object literals it builds itself. A value is one of the JSON shapes or \<^verbatim>\<open>undefined\<close>.
  A string is a list of code units (only the units below 256 are represented). A number
  is kept as its canonical rendering, the text \<^verbatim>\<open>String(n)\<close> gives (\<^verbatim>\<open>0.7\<close>, \<^verbatim>\<open>32768\<close>):
  the proxy never calculates with a number of a request or of an upstream reply, it
  tests it for truthiness, prints it and passes it on (\<^verbatim>\<open>0\<close> and \<^verbatim>\<open>-0\<close> both render as
  \<^verbatim>\<open>0\<close>). An object is the list of its own properties, in insertion order.
\<close>

datatype jsval =
    JUndefined
  | JNull
  | JBool bool
  | JNum string
  | JStr string
  | JArr "jsval list"
  | JObj "(string \<times> jsval) list"

text \<open>An exception is represented by its \<^verbatim>\<open>message\<close>; a function that may throw returns
  \<open>Inl message\<close>.\<close>

type_synonym 'a result = "string + 'a"

definition squote :: string where
  "squote = [CHR 0x27]"

definition dquote :: string where
  "dquote = [CHR 0x22]"

text \<open>\<^verbatim>\<open>v.k\<close>: reading a property of \<^verbatim>\<open>null\<close> or \<^verbatim>\<open>undefined\<close> throws a TypeError. The
  property names the proxy reads (\<^verbatim>\<open>model\<close>, \<^verbatim>\<open>prompt\<close>, \<^verbatim>\<open>input\<close>, \<^verbatim>\<open>content\<close>, ...) are
  not defined on strings, numbers, booleans or arrays, where the read gives
  \<^verbatim>\<open>undefined\<close>.\<close>

fun js_get :: "jsval \<Rightarrow> string \<Rightarrow> jsval result" where
  "js_get JUndefined k =
     Inl (''Cannot read properties of undefined (reading '' @ squote @ k @ squote @ '')'')"
| "js_get JNull k =
     Inl (''Cannot read properties of null (reading '' @ squote @ k @ squote @ '')'')"
| "js_get (JObj fs) k = Inr (case map_of fs k of None \<Rightarrow> JUndefined | Some v \<Rightarrow> v)"
| "js_get v k = Inr JUndefined"

text \<open>Truthiness, as \<^verbatim>\<open>if (v)\<close>, \<^verbatim>\<open>!v\<close> and \<^verbatim>\<open>v || d\<close> test it.\<close>

fun truthy :: "jsval \<Rightarrow> bool" where
  "truthy JUndefined = False"
| "truthy JNull = False"
| "truthy (JBool b) = b"
| "truthy (JNum n) = (n \<noteq> ''0'' \<and> n \<noteq> ''NaN'')"
| "truthy (JStr s) = (s \<noteq> [])"
| "truthy (JArr xs) = True"
| "truthy (JObj fs) = True"

fun join_comma :: "string list \<Rightarrow> string" where
  "join_comma [] = []"
| "join_comma [s] = s"
| "join_comma (s # t # ss) = s @ '','' @ join_comma (t # ss)"

text \<open>\<^verbatim>\<open>String(v)\<close>, which is also what a template literal \<^verbatim>\<open>`${v}`\<close> and a property key
  \<^verbatim>\<open>table[v]\<close> use. An array joins its elements with commas (\<^verbatim>\<open>null\<close> and
  \<^verbatim>\<open>undefined\<close> elements give the empty string); a plain object gives
  \<^verbatim>\<open>[object Object]\<close>.\<close>

fun js_String :: "jsval \<Rightarrow> string" where
  "js_String JUndefined = ''undefined''"
| "js_String JNull = ''null''"
| "js_String (JBool b) = (if b then ''true'' else ''false'')"
| "js_String (JNum n) = n"
| "js_String (JStr s) = s"
| "js_String (JArr xs) =
     join_comma (map (\<lambda>x. if x = JNull \<or> x = JUndefined then [] else js_String x) xs)"
| "js_String (JObj fs) = ''[object Object]''"

text \<open>\<^verbatim>\<open>String.prototype.trim\<close> removes white space and line terminators at both ends:
  TAB, LF, VT, FF, CR, SP and NBSP among the code units below 256.\<close>

definition is_ws :: "char \<Rightarrow> bool" where
  "is_ws c = (c \<in> set [CHR 0x09, CHR 0x0A, CHR 0x0B, CHR 0x0C, CHR 0x0D, CHR 0x20, CHR 0xA0])"

definition trim :: "string \<Rightarrow> string" where
  "trim s = rev (dropWhile is_ws (rev (dropWhile is_ws s)))"

text \<open>\<^verbatim>\<open>s.includes(p)\<close>: \<open>p\<close> occurs in \<open>s\<close> as a contiguous run.\<close>

definition js_includes :: "string \<Rightarrow> string \<Rightarrow> bool" where
  "js_includes s p = sublist p s"

text \<open>A non-negative integer inside a template literal: its decimal digits.\<close>

definition digit :: "nat \<Rightarrow> char" where
  "digit d = ''0123456789'' ! d"

fun show_nat :: "nat \<Rightarrow> string" where
  "show_nat n = (if n < 10 then [digit n] else show_nat (n div 10) @ [digit (n mod 10)])"

declare show_nat.simps [simp del]

section \<open>The model registry and the providers\<close>

text \<open>An entry of \<^verbatim>\<open>models.json\<close>: \<^verbatim>\<open>{ provider, model, type }\<close>; \<open>mtype\<close> is the entry's
  \<^verbatim>\<open>type\<close>, \<open>None\<close> when the entry has none.\<close>

record model_config =
  provider :: string
  model :: string
  mtype :: "string option"

text \<open>The process-wide state \<^verbatim>\<open>loadModels\<close> and the start-up code leave behind: the two
  registries, the set of providers that have a handle, and the Google key of the
  environment. A registry maps the names of its own entries (none of them is
  \<^verbatim>\<open>__proto__\<close>). \<open>providers e p\<close> says that \<^verbatim>\<open>providers[p]\<close> is truthy.\<close>

record env =
  chatModels :: "string \<Rightarrow> model_config option"
  embeddingModels :: "string \<Rightarrow> model_config option"
  providers :: "string \<Rightarrow> bool"
  GEMINI_API_KEY :: "string option"

text \<open>
  The registries are plain objects, so \<^verbatim>\<open>chatModels[name]\<close> also finds the properties
  every object inherits from \<^verbatim>\<open>Object.prototype\<close>. For such a name that is not an entry,
  \<^verbatim>\<open>config\<close> is a function (for \<^verbatim>\<open>__proto__\<close> the prototype itself), which is truthy and has
  no \<^verbatim>\<open>provider\<close>: the check \<^verbatim>\<open>!providers[config.provider]\<close> reads \<^verbatim>\<open>providers[undefined]\<close>,
  which the start-up code never sets, and the function throws
  \<^verbatim>\<open>Provider undefined not available\<close>.
\<close>

definition inherited_names :: "string list" where
  "inherited_names =
     [''constructor'', ''__proto__'', ''hasOwnProperty'', ''isPrototypeOf'',
      ''propertyIsEnumerable'', ''toLocaleString'', ''toString'', ''valueOf'',
      ''__defineGetter__'', ''__defineSetter__'', ''__lookupGetter__'', ''__lookupSetter__'']"

definition validateChatModel :: "env \<Rightarrow> jsval \<Rightarrow> model_config result" where
  "validateChatModel e name =
     (case chatModels e (js_String name) of
        None \<Rightarrow>
          if js_String name \<in> set inherited_names
          then Inl ''Provider undefined not available''
          else Inl (''Chat model '' @ js_String name @ '' not supported'')
      | Some config \<Rightarrow>
          if \<not> providers e (provider config)
          then Inl (''Provider '' @ provider config @ '' not available'')
          else Inr config)"

definition validateEmbeddingModel :: "env \<Rightarrow> jsval \<Rightarrow> model_config result" where
  "validateEmbeddingModel e name =
     (case embeddingModels e (js_String name) of
        None \<Rightarrow>
          if js_String name \<in> set inherited_names
          then Inl ''Provider undefined not available''
          else Inl (''Embedding model '' @ js_String name @ '' not supported'')
      | Some config \<Rightarrow>
          if \<not> providers e (provider config)
          then Inl (''Provider '' @ provider config @ '' not available'')
          else if mtype config \<noteq> Some ''embedding''
          then Inl (''Model '' @ js_String name @ '' is not an embedding model'')
          else Inr config)"

section \<open>Embedding requests\<close>

text \<open>The callback of \<^verbatim>\<open>body.input.map\<close>, with the index it receives.\<close>

fun map_input :: "jsval list \<Rightarrow> nat \<Rightarrow> string list result" where
  "map_input [] index = Inr []"
| "map_input (text # rest) index =
     (case text of
        JStr s \<Rightarrow>
          (if trim s = [] then Inl (''Input at index '' @ show_nat index @ '' cannot be empty'')
           else (case map_input rest (Suc index) of
                   Inl err \<Rightarrow> Inl err
                 | Inr ts \<Rightarrow> Inr (trim s # ts)))
      | _ \<Rightarrow> Inl (''Input at index '' @ show_nat index @ '' must be a string''))"

definition maxTexts :: nat where
  "maxTexts = 100"

definition maxTextLength :: nat where
  "maxTextLength = 10000"

text \<open>The loop \<^verbatim>\<open>for (let i = 0; i < inputTexts.length; i++)\<close> over the lengths.\<close>

fun check_lengths :: "string list \<Rightarrow> nat \<Rightarrow> unit result" where
  "check_lengths [] i = Inr ()"
| "check_lengths (t # ts) i =
     (if length t > maxTextLength
      then Inl (''Input text at index '' @ show_nat i @ '' is too long. Maximum length: ''
                @ show_nat maxTextLength @ '' characters'')
      else check_lengths ts (Suc i))"

record embedding_request =
  modelConfig :: model_config
  inputTexts :: "string list"
  isSingleText :: bool

definition parse_inputs :: "jsval \<Rightarrow> jsval \<Rightarrow> string list result" where
  "parse_inputs prompt input =
     (if truthy prompt then
        (case prompt of
           JStr s \<Rightarrow> if trim s = [] then Inl ''Prompt must be a non-empty string''
                     else Inr [trim s]
         | _ \<Rightarrow> Inl ''Prompt must be a non-empty string'')
      else if truthy input then
        (case input of
           JArr xs \<Rightarrow> if length xs = 0 then Inl ''Input array cannot be empty''
                      else map_input xs 0
         | JStr s \<Rightarrow> if trim s = [] then Inl ''Input cannot be empty'' else Inr [trim s]
         | _ \<Rightarrow> Inl ''Input must be a string or array of strings'')
      else Inl (''Missing required field: either '' @ dquote @ ''prompt'' @ dquote @ '' or ''
                @ dquote @ ''input'' @ dquote @ '' must be provided''))"

definition validateEmbeddingRequest :: "env \<Rightarrow> jsval \<Rightarrow> embedding_request result" where
  "validateEmbeddingRequest e body =
     (case js_get body ''model'' of
        Inl err \<Rightarrow> Inl err
      | Inr m \<Rightarrow>
          if \<not> truthy m then Inl ''Missing required field: model''
          else (case validateEmbeddingModel e m of
                  Inl err \<Rightarrow> Inl err
                | Inr config \<Rightarrow>
                    (case js_get body ''prompt'' of
                       Inl err \<Rightarrow> Inl err
                     | Inr prompt \<Rightarrow>
                         (case js_get body ''input'' of
                            Inl err \<Rightarrow> Inl err
                          | Inr input \<Rightarrow>
                              (case parse_inputs prompt input of
                                 Inl err \<Rightarrow> Inl err
                               | Inr texts \<Rightarrow>
                                   if length texts > maxTexts
                                   then Inl (''Too many input texts. Maximum allowed: ''
                                             @ show_nat maxTexts)
                                   else (case check_lengths texts 0 of
                                           Inl err \<Rightarrow> Inl err
                                         | Inr u \<Rightarrow>
                                             Inr \<lparr>modelConfig = config,
                                                  inputTexts = texts,
                                                  isSingleText =
                                                    (length texts = 1 \<and> prompt \<noteq> JUndefined)\<rparr>))))))"

section \<open>Generating embeddings\<close>

text \<open>
  One \<^verbatim>\<open>fetch\<close> of \<^verbatim>\<open>generateEmbeddings\<close>: the model named in the request body and the
  text. The upstream service is a parameter \<open>up\<close>: given how many calls the request has
  made before and the call, it says how the call ends. \<open>Threw m\<close>: \<^verbatim>\<open>fetch\<close>,
  \<^verbatim>\<open>response.text()\<close> or \<^verbatim>\<open>response.json()\<close> rejected with message \<open>m\<close>;
  \<open>NotOk status errorData\<close>: \<^verbatim>\<open>response.ok\<close> was false; \<open>Ok result\<close>: the parsed
  reply.
\<close>

record embed_call =
  call_model :: string
  call_text :: string

datatype fetch_outcome =
    Threw string
  | NotOk nat string
  | Ok jsval

type_synonym upstream = "nat \<Rightarrow> embed_call \<Rightarrow> fetch_outcome"

fun isArray :: "jsval \<Rightarrow> bool" where
  "isArray (JArr xs) = True"
| "isArray v = False"

fun js_length :: "jsval \<Rightarrow> nat" where
  "js_length (JArr xs) = length xs"
| "js_length v = 0"

definition the_call :: "model_config \<Rightarrow> string \<Rightarrow> embed_call" where
  "the_call config text = \<lparr>call_model = ''models/'' @ model config, call_text = text\<rparr>"

text \<open>The body of the loop of \<^verbatim>\<open>generateEmbeddings\<close> for the text at index \<open>i\<close>: the
  call, the status check and the shape check of the reply.\<close>

definition embed_one :: "upstream \<Rightarrow> model_config \<Rightarrow> nat \<Rightarrow> string \<Rightarrow> jsval result" where
  "embed_one up config i text =
     (case up i (the_call config text) of
        Threw m \<Rightarrow> Inl m
      | NotOk status errorData \<Rightarrow>
          if status = 401
          then Inl ''Google API authentication failed. Please check your GEMINI_API_KEY.''
          else if status = 429
          then Inl ''Google API rate limit exceeded. Please try again later.''
          else if status = 400
          then Inl (''Invalid request to Google API: '' @ errorData)
          else Inl (''Google API error ('' @ show_nat status @ ''): '' @ errorData)
      | Ok result \<Rightarrow>
          (case js_get result ''embedding'' of
             Inl err \<Rightarrow> Inl err
           | Inr embedding \<Rightarrow>
               if \<not> truthy embedding
               then Inl (''Invalid embedding response for text '' @ show_nat (i + 1)
                         @ '': missing or invalid embedding array'')
               else (case js_get embedding ''values'' of
                       Inl err \<Rightarrow> Inl err
                     | Inr values \<Rightarrow>
                         if \<not> truthy values \<or> \<not> isArray values
                         then Inl (''Invalid embedding response for text '' @ show_nat (i + 1)
                                   @ '': missing or invalid embedding array'')
                         else Inr values)))"

text \<open>The loop \<^verbatim>\<open>for (let i = 0; i < inputTexts.length; i++)\<close>: \<open>calls\<close> is the list of
  calls issued so far, \<open>embeddings\<close> the array the loop pushes to. A failure leaves the
  loop at once.\<close>

fun embed_loop ::
  "upstream \<Rightarrow> model_config \<Rightarrow> string list \<Rightarrow> nat \<Rightarrow> embed_call list \<Rightarrow> jsval list
     \<Rightarrow> embed_call list \<times> jsval list result" where
  "embed_loop up config [] i calls embeddings = (calls, Inr embeddings)"
| "embed_loop up config (text # rest) i calls embeddings =
     (case embed_one up config i text of
        Inl err \<Rightarrow> (calls @ [the_call config text], Inl err)
      | Inr values \<Rightarrow>
          embed_loop up config rest (Suc i) (calls @ [the_call config text])
            (embeddings @ [values]))"

record embedding_result =
  embeddings :: "jsval list"
  res_model :: string
  dimensions :: nat

fun env_truthy :: "string option \<Rightarrow> bool" where
  "env_truthy None = False"
| "env_truthy (Some s) = (s \<noteq> [])"

text \<open>\<^verbatim>\<open>generateEmbeddings\<close> returns the calls it issued together with its result.\<close>

definition generateEmbeddings ::
  "env \<Rightarrow> upstream \<Rightarrow> model_config \<Rightarrow> string list \<Rightarrow> embed_call list \<times> embedding_result result"
  where
  "generateEmbeddings e up config texts =
     (if provider config = ''google'' \<and> \<not> env_truthy (GEMINI_API_KEY e)
      then ([], Inl ''Google API key (GEMINI_API_KEY) is required for Google embedding models'')
      else if provider config \<noteq> ''google''
      then ([], Inl (''Only Google embedding models are currently supported, got: ''
                     @ provider config))
      else (case embed_loop up config texts 0 [] [] of
              (calls, Inl err) \<Rightarrow> (calls, Inl err)
            | (calls, Inr embs) \<Rightarrow>
                (calls, Inr \<lparr>embeddings = embs,
                             res_model = model config,
                             dimensions = (case embs of [] \<Rightarrow> 0 | v # vs \<Rightarrow> js_length v)\<rparr>)))"

section \<open>Shaping and checking the embedding response\<close>

text \<open>\<open>timestamp\<close> is what \<^verbatim>\<open>new Date().toISOString()\<close> returned.\<close>

definition formatEmbeddingResponse ::
  "embedding_result \<Rightarrow> jsval \<Rightarrow> bool \<Rightarrow> string \<Rightarrow> jsval" where
  "formatEmbeddingResponse embeddingResult modelName single timestamp =
     (if single
      then JObj [(''embedding'',
                   (case embeddings embeddingResult of [] \<Rightarrow> JUndefined | v # vs \<Rightarrow> v)),
                 (''model'', modelName),
                 (''created_at'', JStr timestamp)]
      else JObj [(''embeddings'',
                   JArr (map (\<lambda>embedding. JObj [(''embedding'', embedding)])
                           (embeddings embeddingResult))),
                 (''model'', modelName),
                 (''created_at'', JStr timestamp)])"

fun isString :: "jsval \<Rightarrow> bool" where
  "isString (JStr s) = True"
| "isString v = False"

text \<open>The loop of \<^verbatim>\<open>validateEmbeddingResponse\<close> over \<^verbatim>\<open>response.embeddings\<close>.\<close>

fun check_embedding_objs :: "jsval list \<Rightarrow> nat \<Rightarrow> unit result" where
  "check_embedding_objs [] i = Inr ()"
| "check_embedding_objs (embeddingObj # rest) i =
     (case js_get embeddingObj ''embedding'' of
        Inl err \<Rightarrow> Inl err
      | Inr v \<Rightarrow>
          if \<not> truthy v \<or> \<not> isArray v
          then Inl (''Embedding at index '' @ show_nat i @ '' is invalid or missing'')
          else if js_length v = 0
          then Inl (''Embedding at index '' @ show_nat i @ '' is empty'')
          else check_embedding_objs rest (Suc i))"

definition check_vectors :: "jsval \<Rightarrow> nat \<Rightarrow> unit result" where
  "check_vectors response expectedCount =
     (case js_get response ''embedding'' of
        Inl err \<Rightarrow> Inl err
      | Inr single \<Rightarrow>
          if truthy single then
            (if \<not> isArray single then Inl ''Single embedding must be an array''
             else if js_length single = 0 then Inl ''Embedding array cannot be empty''
             else if expectedCount \<noteq> 1
             then Inl (''Expected '' @ show_nat expectedCount
                       @ '' embeddings but got single embedding'')
             else Inr ())
          else
            (case js_get response ''embeddings'' of
               Inl err \<Rightarrow> Inl err
             | Inr multi \<Rightarrow>
                 if truthy multi then
                   (case multi of
                      JArr es \<Rightarrow>
                        if length es \<noteq> expectedCount
                        then Inl (''Expected '' @ show_nat expectedCount
                                  @ '' embeddings but got '' @ show_nat (length es))
                        else check_embedding_objs es 0
                    | _ \<Rightarrow> Inl ''Embeddings must be an array'')
                 else Inl (''Response must contain either '' @ dquote @ ''embedding'' @ dquote
                           @ '' or '' @ dquote @ ''embeddings'' @ dquote @ '' field'')))"

definition validateEmbeddingResponse :: "jsval \<Rightarrow> nat \<Rightarrow> bool result" where
  "validateEmbeddingResponse response expectedCount =
     (if \<not> truthy response then Inl ''Empty embedding response''
      else (case check_vectors response expectedCount of
              Inl err \<Rightarrow> Inl err
            | Inr u \<Rightarrow>
                (case js_get response ''model'' of
                   Inl err \<Rightarrow> Inl err
                 | Inr m \<Rightarrow>
                     if \<not> truthy m \<or> \<not> isString m
                     then Inl ''Response must contain valid model name''
                     else (case js_get response ''created_at'' of
                             Inl err \<Rightarrow> Inl err
                           | Inr c \<Rightarrow>
                               if \<not> truthy c \<or> \<not> isString c
                               then Inl ''Response must contain valid created_at timestamp''
                               else Inr True))))"

section \<open>The response sink and the error classifier\<close>

text \<open>
  What a handler does to the \<^verbatim>\<open>response\<close> object, in order: \<open>WriteHead status type\<close>
  is \<^verbatim>\<open>writeHead\<close> with that status and content type, \<open>Write v\<close> is
  \<^verbatim>\<open>write(JSON.stringify(v) + '\n')\<close>, \<open>End (Some v)\<close> is \<^verbatim>\<open>end(JSON.stringify(v))\<close> and
  \<open>End None\<close> is \<^verbatim>\<open>end()\<close>.
\<close>

datatype action =
    WriteHead nat string
  | Write jsval
  | End "jsval option"

type_synonym response = "action list"

fun isWriteHead :: "action \<Rightarrow> bool" where
  "isWriteHead (WriteHead status ctype) = True"
| "isWriteHead a = False"

definition headersSent :: "response \<Rightarrow> bool" where
  "headersSent response = list_ex isWriteHead response"

definition sendJSON :: "response \<Rightarrow> jsval \<Rightarrow> nat \<Rightarrow> response" where
  "sendJSON response data status =
     response @ [WriteHead status ''application/json'', End (Some data)]"

definition classify :: "string \<Rightarrow> nat \<times> string" where
  "classify message =
     (if js_includes message ''not supported'' \<or>
         js_includes message ''not an embedding model'' \<or>
         js_includes message ''Missing required field'' \<or>
         js_includes message ''must be'' \<or>
         js_includes message ''cannot be empty'' \<or>
         js_includes message ''Too many'' \<or>
         js_includes message ''too long''
      then (400, message)
      else if js_includes message ''not available'' \<or>
              js_includes message ''API key'' \<or>
              js_includes message ''authentication'' \<or>
              js_includes message ''unauthorized''
      then (401, message)
      else if js_includes message ''rate limit'' \<or>
              js_includes message ''quota'' \<or>
              js_includes message ''too many requests''
      then (429, ''Rate limit exceeded. Please try again later.'')
      else if js_includes message ''service unavailable'' \<or>
              js_includes message ''timeout''
      then (503, ''Service temporarily unavailable. Please try again later.'')
      else (500, ''Internal server error''))"

definition handleEmbeddingError :: "string \<Rightarrow> response \<Rightarrow> response" where
  "handleEmbeddingError message response =
     (case classify message of
        (status, shown) \<Rightarrow>
          if \<not> headersSent response
          then sendJSON response (JObj [(''error'', JStr shown)]) status
          else response)"

text \<open>The handler of \<^verbatim>\<open>POST /api/embeddings\<close>: the upstream calls it issued and what it
  did to the response.\<close>

definition post_api_embeddings ::
  "env \<Rightarrow> upstream \<Rightarrow> string \<Rightarrow> jsval \<Rightarrow> response \<Rightarrow> embed_call list \<times> response" where
  "post_api_embeddings e up timestamp body response =
     (case validateEmbeddingRequest e body of
        Inl err \<Rightarrow> ([], handleEmbeddingError err response)
      | Inr req \<Rightarrow>
          (case generateEmbeddings e up (modelConfig req) (inputTexts req) of
             (calls, Inl err) \<Rightarrow> (calls, handleEmbeddingError err response)
           | (calls, Inr embeddingResult) \<Rightarrow>
               (case js_get body ''model'' of
                  Inl err \<Rightarrow> (calls, handleEmbeddingError err response)
                | Inr modelName \<Rightarrow>
                    (let formattedResponse =
                           formatEmbeddingResponse embeddingResult modelName
                             (isSingleText req) timestamp
                     in case validateEmbeddingResponse formattedResponse
                               (length (inputTexts req)) of
                          Inl err \<Rightarrow> (calls, handleEmbeddingError err response)
                        | Inr ok \<Rightarrow> (calls, sendJSON response formattedResponse 200)))))"

section \<open>Chat and generate requests\<close>

record message =
  role :: string
  content :: string

text \<open>The filter callback \<^verbatim>\<open>msg => msg.content && msg.content.trim()\<close>: a truthy content
  that is not a string has no \<^verbatim>\<open>trim\<close> and the call throws.\<close>

definition keep_message :: "jsval \<Rightarrow> bool result" where
  "keep_message msg =
     (case js_get msg ''content'' of
        Inl err \<Rightarrow> Inl err
      | Inr c \<Rightarrow>
          if \<not> truthy c then Inr False
          else (case c of
                  JStr s \<Rightarrow> Inr (trim s \<noteq> [])
                | _ \<Rightarrow> Inl ''msg.content.trim is not a function''))"

fun filter_messages :: "jsval list \<Rightarrow> jsval list result" where
  "filter_messages [] = Inr []"
| "filter_messages (msg # rest) =
     (case keep_message msg of
        Inl err \<Rightarrow> Inl err
      | Inr keep \<Rightarrow>
          (case filter_messages rest of
             Inl err \<Rightarrow> Inl err
           | Inr kept \<Rightarrow> Inr (if keep then msg # kept else kept)))"

text \<open>The map callback: the role and the trimmed \<^verbatim>\<open>String(msg.content)\<close>.\<close>

definition map_message :: "jsval \<Rightarrow> message result" where
  "map_message msg =
     (case js_get msg ''role'' of
        Inl err \<Rightarrow> Inl err
      | Inr r \<Rightarrow>
          (case js_get msg ''content'' of
             Inl err \<Rightarrow> Inl err
           | Inr c \<Rightarrow>
               Inr \<lparr>role = (if r = JStr ''assistant'' then ''assistant'' else ''user''),
                    content = trim (js_String c)\<rparr>))"

fun map_messages :: "jsval list \<Rightarrow> message list result" where
  "map_messages [] = Inr []"
| "map_messages (msg # rest) =
     (case map_message msg of
        Inl err \<Rightarrow> Inl err
      | Inr m \<Rightarrow>
          (case map_messages rest of
             Inl err \<Rightarrow> Inl err
           | Inr ms \<Rightarrow> Inr (m # ms)))"

definition prepareMessages :: "jsval \<Rightarrow> message list result" where
  "prepareMessages messages =
     (case messages of
        JArr ms \<Rightarrow>
          (case filter_messages ms of
             Inl err \<Rightarrow> Inl err
           | Inr kept \<Rightarrow> map_messages kept)
      | _ \<Rightarrow>
          (case js_get messages ''filter'' of
             Inl err \<Rightarrow> Inl err
           | Inr v \<Rightarrow> Inl ''messages.filter is not a function''))"

text \<open>
  One call of the AI SDK (\<^verbatim>\<open>generateText\<close> or \<^verbatim>\<open>streamText\<close>): the model handle
  \<^verbatim>\<open>providers[provider](model)\<close>, named by provider and model, the prepared messages and
  the three options. The SDK is a parameter: \<open>generateText\<close> throws or returns its
  result object; \<open>streamText\<close> throws (\<open>CallThrows\<close>), or gives a result whose
  \<^verbatim>\<open>textStream\<close> yields the deltas and then ends (\<open>None\<close>) or throws (\<open>Some message\<close>), and
  whose \<^verbatim>\<open>reasoning\<close> is the last component. The deltas a stream yields before it ends
  or throws are a finite list.
\<close>

record gen_call =
  via_provider :: string
  via_model :: string
  messages :: "message list"
  temperature :: jsval
  maxTokens :: jsval
  topP :: jsval

datatype stream_outcome =
    CallThrows string
  | Streams "string list" "string option" jsval

record sdk =
  generateText :: "gen_call \<Rightarrow> jsval result"
  streamText :: "gen_call \<Rightarrow> stream_outcome"

text \<open>A parameter with the default \<^verbatim>\<open>= {}\<close>.\<close>

definition or_empty_object :: "jsval \<Rightarrow> jsval" where
  "or_empty_object v = (if v = JUndefined then JObj [] else v)"

text \<open>The argument \<^verbatim>\<open>generateResponse\<close> passes to \<^verbatim>\<open>generateText\<close>.\<close>

definition generate_call :: "model_config \<Rightarrow> message list \<Rightarrow> jsval \<Rightarrow> gen_call result" where
  "generate_call config validMessages options =
     (case js_get options ''temperature'' of
        Inl err \<Rightarrow> Inl err
      | Inr t \<Rightarrow>
          (case js_get options ''num_predict'' of
             Inl err \<Rightarrow> Inl err
           | Inr n \<Rightarrow>
               (case js_get options ''top_p'' of
                  Inl err \<Rightarrow> Inl err
                | Inr p \<Rightarrow>
                    Inr \<lparr>via_provider = provider config,
                         via_model = model config,
                         messages = validMessages,
                         temperature = t,
                         maxTokens = (if truthy n then n else JNum ''32768''),
                         topP = p\<rparr>)))"

text \<open>The argument \<^verbatim>\<open>streamResponse\<close> passes to \<^verbatim>\<open>streamText\<close>.\<close>

definition stream_call :: "model_config \<Rightarrow> message list \<Rightarrow> jsval \<Rightarrow> gen_call result" where
  "stream_call config validMessages options =
     (case js_get options ''temperature'' of
        Inl err \<Rightarrow> Inl err
      | Inr t \<Rightarrow>
          (case js_get options ''num_predict'' of
             Inl err \<Rightarrow> Inl err
           | Inr n \<Rightarrow>
               (case js_get options ''top_p'' of
                  Inl err \<Rightarrow> Inl err
                | Inr p \<Rightarrow>
                    Inr \<lparr>via_provider = provider config,
                         via_model = model config,
                         messages = validMessages,
                         temperature = t,
                         maxTokens = n,
                         topP = p\<rparr>)))"

record gen_result =
  res_text :: jsval
  res_reasoning :: jsval
  res_messages :: jsval

text \<open>\<^verbatim>\<open>result.messages.filter(msg => msg.role === 'assistant')\<close>.\<close>

fun filter_assistant :: "jsval list \<Rightarrow> jsval list result" where
  "filter_assistant [] = Inr []"
| "filter_assistant (msg # rest) =
     (case js_get msg ''role'' of
        Inl err \<Rightarrow> Inl err
      | Inr r \<Rightarrow>
          (case filter_assistant rest of
             Inl err \<Rightarrow> Inl err
           | Inr kept \<Rightarrow> Inr (if r = JStr ''assistant'' then msg # kept else kept)))"

text \<open>\<^verbatim>\<open>a || b\<close>.\<close>

definition js_or :: "jsval \<Rightarrow> jsval \<Rightarrow> jsval" where
  "js_or a b = (if truthy a then a else b)"

text \<open>What \<^verbatim>\<open>generateResponse\<close> makes of the result of \<^verbatim>\<open>generateText\<close>.\<close>

definition read_result :: "jsval \<Rightarrow> gen_result result" where
  "read_result result =
     (case js_get result ''text'' of
        Inl err \<Rightarrow> Inl err
      | Inr text0 \<Rightarrow>
          (case js_get result ''reasoning'' of
             Inl err \<Rightarrow> Inl err
           | Inr reasoning0 \<Rightarrow>
               (case js_get result ''messages'' of
                  Inl err \<Rightarrow> Inl err
                | Inr ms \<Rightarrow>
                    (case ms of
                       JArr msgs \<Rightarrow>
                         (case filter_assistant msgs of
                            Inl err \<Rightarrow> Inl err
                          | Inr assistants \<Rightarrow>
                              if assistants = []
                              then Inr \<lparr>res_text = js_or text0 (JStr []),
                                        res_reasoning = js_or reasoning0 JNull,
                                        res_messages = ms\<rparr>
                              else
                                (let assistantMessage = last assistants in
                                 case js_get assistantMessage ''content'' of
                                   Inl err \<Rightarrow> Inl err
                                 | Inr c \<Rightarrow>
                                     (case js_get assistantMessage ''text'' of
                                        Inl err \<Rightarrow> Inl err
                                      | Inr t \<Rightarrow>
                                          (case js_get assistantMessage ''reasoning'' of
                                             Inl err \<Rightarrow> Inl err
                                           | Inr r \<Rightarrow>
                                               Inr \<lparr>res_text = js_or (js_or c (js_or t text0)) (JStr []),
                                                    res_reasoning =
                                                      (if truthy r then r
                                                       else js_or reasoning0 JNull),
                                                    res_messages = ms\<rparr>))))
                     | _ \<Rightarrow>
                         Inr \<lparr>res_text = js_or text0 (JStr []),
                              res_reasoning = js_or reasoning0 JNull,
                              res_messages = JNull\<rparr>))))"

text \<open>\<^verbatim>\<open>generateResponse\<close>: the calls issued and the result.\<close>

definition generateResponse ::
  "env \<Rightarrow> sdk \<Rightarrow> model_config \<Rightarrow> jsval \<Rightarrow> jsval \<Rightarrow> gen_call list \<times> gen_result result" where
  "generateResponse e s config msgs options0 =
     (let options = or_empty_object options0 in
      if \<not> providers e (provider config) then ([], Inl ''provider is not a function'')
      else (case prepareMessages msgs of
              Inl err \<Rightarrow> ([], Inl err)
            | Inr validMessages \<Rightarrow>
                if length validMessages = 0 then ([], Inl ''No valid messages found'')
                else (case generate_call config validMessages options of
                        Inl err \<Rightarrow> ([], Inl err)
                      | Inr call \<Rightarrow>
                          (case generateText s call of
                             Inl err \<Rightarrow> ([call], Inl err)
                           | Inr result \<Rightarrow> ([call], read_result result)))))"

section \<open>Envelopes and stream chunks\<close>

text \<open>\<^verbatim>\<open>obj.k = v\<close> on an object: an own property keeps its place, a new one goes last.\<close>

fun set_prop :: "jsval \<Rightarrow> string \<Rightarrow> jsval \<Rightarrow> jsval" where
  "set_prop (JObj fs) k v = JObj (AList.update k v fs)"
| "set_prop obj k v = obj"

text \<open>The three places that fill an envelope (the delta chunk, the final chunk, the
  complete response) use the same two steps: the content under the key of the endpoint,
  and the reasoning, inside \<^verbatim>\<open>message\<close> for the chat endpoint, beside the content
  otherwise.\<close>

definition set_content :: "string \<Rightarrow> jsval \<Rightarrow> jsval \<Rightarrow> jsval" where
  "set_content responseKey chunk c =
     (if responseKey = ''message''
      then set_prop chunk ''message'' (JObj [(''role'', JStr ''assistant''), (''content'', c)])
      else if responseKey = ''response''
      then set_prop chunk ''response'' c
      else chunk)"

definition add_reasoning :: "string \<Rightarrow> jsval \<Rightarrow> jsval \<Rightarrow> jsval" where
  "add_reasoning responseKey chunk r =
     (if truthy r then
        (if responseKey = ''message''
         then (case js_get chunk ''message'' of
                 Inl err \<Rightarrow> chunk
               | Inr m \<Rightarrow> set_prop chunk ''message'' (set_prop m ''reasoning'' r))
         else set_prop chunk ''reasoning'' r)
      else chunk)"

definition delta_chunk :: "string \<Rightarrow> string \<Rightarrow> string \<Rightarrow> string \<Rightarrow> jsval" where
  "delta_chunk modelName timestamp responseKey delta =
     set_content responseKey
       (JObj [(''model'', JStr modelName), (''created_at'', JStr timestamp),
              (''done'', JBool False)])
       (JStr delta)"

definition final_chunk :: "string \<Rightarrow> string \<Rightarrow> string \<Rightarrow> jsval \<Rightarrow> jsval" where
  "final_chunk modelName timestamp responseKey r =
     add_reasoning responseKey
       (set_content responseKey
          (JObj [(''model'', JStr modelName), (''created_at'', JStr timestamp),
                 (''done'', JBool True)])
          (JStr []))
       r"

definition error_chunk :: "string \<Rightarrow> string \<Rightarrow> string \<Rightarrow> jsval" where
  "error_chunk modelName timestamp message =
     JObj [(''model'', JStr modelName), (''created_at'', JStr timestamp),
           (''done'', JBool True), (''error'', JStr message)]"

section \<open>Streaming\<close>

text \<open>The clock: \<open>now k\<close> is what \<^verbatim>\<open>new Date().toISOString()\<close> returns when the response
  has received \<open>k\<close> actions.\<close>

type_synonym clock = "nat \<Rightarrow> string"

text \<open>The loop \<^verbatim>\<open>for await (const delta of result.textStream)\<close> over the deltas the
  stream yields.\<close>

fun stream_tokens :: "clock \<Rightarrow> string \<Rightarrow> string \<Rightarrow> string list \<Rightarrow> response \<Rightarrow> response" where
  "stream_tokens now modelName responseKey [] response = response"
| "stream_tokens now modelName responseKey (delta # rest) response =
     stream_tokens now modelName responseKey rest
       (response @ [Write (delta_chunk modelName (now (length response)) responseKey delta)])"

definition ndjson_headers :: action where
  "ndjson_headers = WriteHead 200 ''application/x-ndjson''"

text \<open>The \<^verbatim>\<open>catch\<close> block of \<^verbatim>\<open>streamResponse\<close>.\<close>

definition stream_failed :: "clock \<Rightarrow> string \<Rightarrow> string \<Rightarrow> response \<Rightarrow> response" where
  "stream_failed now modelName message response =
     response @ [Write (error_chunk modelName (now (length response)) message), End None]"

text \<open>The \<^verbatim>\<open>try\<close> block of \<^verbatim>\<open>streamResponse\<close>, with the \<^verbatim>\<open>catch\<close> block applied where
  it throws.\<close>

definition stream_body ::
  "sdk \<Rightarrow> clock \<Rightarrow> response \<Rightarrow> model_config \<Rightarrow> message list \<Rightarrow> jsval \<Rightarrow> string
     \<Rightarrow> gen_call list \<times> response" where
  "stream_body s now response config validMessages options responseKey =
     (case stream_call config validMessages options of
        Inl err \<Rightarrow> ([], stream_failed now (model config) err response)
      | Inr call \<Rightarrow>
          (case streamText s call of
             CallThrows err \<Rightarrow> ([call], stream_failed now (model config) err response)
           | Streams deltas failure r \<Rightarrow>
               (let streamed = stream_tokens now (model config) responseKey deltas response in
                case failure of
                  Some err \<Rightarrow> ([call], stream_failed now (model config) err streamed)
                | None \<Rightarrow>
                    ([call],
                     streamed @
                       [Write (final_chunk (model config) (now (length streamed)) responseKey r),
                        End None]))))"

text \<open>\<^verbatim>\<open>streamResponse\<close>: the calls issued, whether it threw, and the response.\<close>

definition streamResponse ::
  "env \<Rightarrow> sdk \<Rightarrow> clock \<Rightarrow> response \<Rightarrow> model_config \<Rightarrow> jsval \<Rightarrow> jsval \<Rightarrow> string
     \<Rightarrow> gen_call list \<times> unit result \<times> response" where
  "streamResponse e s now response config msgs options0 responseKey =
     (let options = or_empty_object options0 in
      if \<not> providers e (provider config) then ([], Inl ''provider is not a function'', response)
      else (case prepareMessages msgs of
              Inl err \<Rightarrow> ([], Inl err, response)
            | Inr validMessages \<Rightarrow>
                if length validMessages = 0
                then ([], Inl ''No valid messages found'', response)
                else (case stream_body s now (response @ [ndjson_headers]) config
                             validMessages options responseKey of
                        (calls, response') \<Rightarrow> (calls, Inr (), response'))))"

section \<open>The chat and generate handler\<close>

text \<open>\<^verbatim>\<open>const { model, options = {}, stream = false } = body\<close>.\<close>

definition destructure :: "jsval \<Rightarrow> (jsval \<times> jsval \<times> jsval) result" where
  "destructure body =
     (if body = JNull \<or> body = JUndefined
      then Inl (''Cannot destructure property '' @ squote @ ''model'' @ squote @ '' of ''
                @ squote @ ''body'' @ squote @ '' as it is '' @ js_String body @ ''.'')
      else (case js_get body ''model'' of
              Inl err \<Rightarrow> Inl err
            | Inr m \<Rightarrow>
                (case js_get body ''options'' of
                   Inl err \<Rightarrow> Inl err
                 | Inr opts \<Rightarrow>
                     (case js_get body ''stream'' of
                        Inl err \<Rightarrow> Inl err
                      | Inr st \<Rightarrow>
                          Inr (m, or_empty_object opts,
                               (if st = JUndefined then JBool False else st))))))"

text \<open>The envelope of a complete (non-streamed) response.\<close>

definition responseData :: "jsval \<Rightarrow> string \<Rightarrow> string \<Rightarrow> gen_result \<Rightarrow> jsval" where
  "responseData modelName timestamp responseKey result =
     (let d = add_reasoning responseKey
                (set_content responseKey
                   (JObj [(''model'', modelName), (''created_at'', JStr timestamp),
                          (''done'', JBool True)])
                   (res_text result))
                (res_reasoning result)
      in if truthy (res_messages result) then set_prop d ''messages'' (res_messages result)
         else d)"

text \<open>The \<^verbatim>\<open>try\<close> block of \<^verbatim>\<open>handleModelGenerationRequest\<close>.\<close>

definition generation_attempt ::
  "env \<Rightarrow> sdk \<Rightarrow> clock \<Rightarrow> jsval \<Rightarrow> (jsval \<Rightarrow> jsval result) \<Rightarrow> string \<Rightarrow> response
     \<Rightarrow> gen_call list \<times> unit result \<times> response" where
  "generation_attempt e s now body messageExtractor responseKey response =
     (case destructure body of
        Inl err \<Rightarrow> ([], Inl err, response)
      | Inr (modelName, options, stream) \<Rightarrow>
          (case validateChatModel e modelName of
             Inl err \<Rightarrow> ([], Inl err, response)
           | Inr config \<Rightarrow>
               (case messageExtractor body of
                  Inl err \<Rightarrow> ([], Inl err, response)
                | Inr extracted \<Rightarrow>
                    (let msgs = js_or extracted (JArr []) in
                     if truthy stream
                     then streamResponse e s now response config msgs options responseKey
                     else (case generateResponse e s config msgs options of
                             (calls, Inl err) \<Rightarrow> (calls, Inl err, response)
                           | (calls, Inr result) \<Rightarrow>
                               (calls, Inr (),
                                sendJSON response
                                  (responseData modelName (now (length response)) responseKey
                                     result)
                                  200))))))"

definition handleModelGenerationRequest ::
  "env \<Rightarrow> sdk \<Rightarrow> clock \<Rightarrow> jsval \<Rightarrow> (jsval \<Rightarrow> jsval result) \<Rightarrow> string \<Rightarrow> response
     \<Rightarrow> gen_call list \<times> response" where
  "handleModelGenerationRequest e s now body messageExtractor responseKey response =
     (case generation_attempt e s now body messageExtractor responseKey response of
        (calls, Inr u, response') \<Rightarrow> (calls, response')
      | (calls, Inl err, response') \<Rightarrow>
          if \<not> headersSent response'
          then (calls, sendJSON response' (JObj [(''error'', JStr err)]) 500)
          else (calls,
                response' @
                  [Write (error_chunk ''unknown'' (now (length response')) err), End None]))"

text \<open>The routes \<^verbatim>\<open>POST /api/chat\<close> and \<^verbatim>\<open>POST /api/generate\<close>.\<close>

definition chat_messages :: "jsval \<Rightarrow> jsval result" where
  "chat_messages body = js_get body ''messages''"




section \<open>Reading an envelope\<close>

text \<open>The vectors an embedding envelope carries, in order: the one under \<^verbatim>\<open>embedding\<close>,
  or those of the objects under \<^verbatim>\<open>embeddings\<close>.\<close>

definition vectors_of :: "jsval \<Rightarrow> jsval list option" where
  "vectors_of envelope =
     (case js_get envelope ''embedding'' of
        Inr (JArr v) \<Rightarrow> Some [JArr v]
      | _ \<Rightarrow>
          (case js_get envelope ''embeddings'' of
             Inr (JArr es) \<Rightarrow>
               those (map (\<lambda>obj. case js_get obj ''embedding'' of
                                    Inr (JArr v) \<Rightarrow> Some (JArr v)
                                  | _ \<Rightarrow> None) es)
           | _ \<Rightarrow> None))"

text \<open>What the envelope of an embedding response has to satisfy before it is sent: it
  carries \<open>n\<close> vectors, none of them empty, and \<^verbatim>\<open>model\<close> and \<^verbatim>\<open>created_at\<close> are
  strings.\<close>

definition string_field :: "jsval \<Rightarrow> string \<Rightarrow> bool" where
  "string_field envelope k = (case js_get envelope k of Inr (JStr s) \<Rightarrow> True | _ \<Rightarrow> False)"

definition envelope_ok :: "jsval \<Rightarrow> nat \<Rightarrow> bool" where
  "envelope_ok envelope n =
     ((case vectors_of envelope of
         None \<Rightarrow> False
       | Some vs \<Rightarrow> length vs = n \<and> list_all (\<lambda>v. js_length v \<noteq> 0) vs)
      \<and> string_field envelope ''model'' \<and> string_field envelope ''created_at'')"

section \<open>Example inputs\<close>

text \<open>A registry with one chat model and two embedding models, one of them served by a
  provider other than Google; an upstream that knows two texts and fails for every other;
  request bodies for the embeddings endpoint.\<close>

definition example_env :: env where
  "example_env =
     \<lparr>chatModels = (\<lambda>n. if n = ''gemini-2.5-flash''
                         then Some \<lparr>provider = ''google'', model = ''gemini-2.5-flash'',
                                    mtype = None\<rparr>
                         else None),
      embeddingModels = (\<lambda>n. if n = ''text-embedding-004''
                              then Some \<lparr>provider = ''google'', model = ''text-embedding-004'',
                                         mtype = Some ''embedding''\<rparr>
                              else if n = ''openai-embedding''
                              then Some \<lparr>provider = ''openai'', model = ''text-embedding-3-small'',
                                         mtype = Some ''embedding''\<rparr>
                              else None),
      providers = (\<lambda>p. p = ''google'' \<or> p = ''openai''),
      GEMINI_API_KEY = Some ''secret''\<rparr>"

definition google_embedding :: model_config where
  "google_embedding =
     \<lparr>provider = ''google'', model = ''text-embedding-004'', mtype = Some ''embedding''\<rparr>"

definition vector_reply :: "jsval list \<Rightarrow> fetch_outcome" where
  "vector_reply v = Ok (JObj [(''embedding'', JObj [(''values'', JArr v)])])"

definition example_upstream :: upstream where
  "example_upstream i call =
     (if call_text call = ''Text 1'' then vector_reply [JNum ''0.1'', JNum ''0.2'']
      else if call_text call = ''Text 2'' then vector_reply [JNum ''0.3'', JNum ''0.4'']
      else NotOk 500 ''boom'')"

definition batch_body :: jsval where
  "batch_body =
     JObj [(''model'', JStr ''text-embedding-004''),
           (''input'', JArr [JStr ''Text 1'', JStr '' Text 2 ''])]"

definition batch3_body :: jsval where
  "batch3_body =
     JObj [(''model'', JStr ''text-embedding-004''),
           (''input'', JArr [JStr ''Text 1'', JStr ''Text 2'', JStr ''Text 3''])]"

definition openai_embedding :: model_config where
  "openai_embedding =
     \<lparr>provider = ''openai'', model = ''text-embedding-3-small'', mtype = Some ''embedding''\<rparr>"

definition openai_body :: jsval where
  "openai_body = JObj [(''model'', JStr ''openai-embedding''), (''prompt'', JStr ''Hello world'')]"

text \<open>The bodies the limits are stated for: the model is valid for the registry, there is
  no truthy \<^verbatim>\<open>prompt\<close>, and \<^verbatim>\<open>input\<close> is the array of the strings \<open>ss\<close>.\<close>

definition array_request :: "env \<Rightarrow> jsval \<Rightarrow> model_config \<Rightarrow> string list \<Rightarrow> bool" where
  "array_request e body config ss =
     ((case js_get body ''model'' of
         Inr m \<Rightarrow> truthy m \<and> validateEmbeddingModel e m = Inr config
       | Inl err \<Rightarrow> False) \<and>
      (case js_get body ''prompt'' of Inr p \<Rightarrow> \<not> truthy p | Inl err \<Rightarrow> False) \<and>
      js_get body ''input'' = Inr (JArr (map JStr ss)))"

definition array_body :: "string list \<Rightarrow> jsval" where
  "array_body ss = JObj [(''model'', JStr ''text-embedding-004''), (''input'', JArr (map JStr ss))]"

definition null_prompt_body :: jsval where
  "null_prompt_body =
     JObj [(''model'', JStr ''text-embedding-004''), (''prompt'', JNull),
           (''input'', JArr [JStr ''Text 1''])]"

text \<open>Messages as the specification of \<^verbatim>\<open>prepareMessages\<close> describes them: \<open>plain_message\<close>
  holds of a message whose content is a string or falsy; \<open>survives\<close> of one whose
  content is a string that is not empty after trimming; \<open>forwarded\<close> is the message
  sent upstream for it.\<close>

definition plain_message :: "jsval \<Rightarrow> bool" where
  "plain_message msg =
     (case js_get msg ''content'' of
        Inr c \<Rightarrow> isString c \<or> \<not> truthy c
      | Inl err \<Rightarrow> False)"

definition survives :: "jsval \<Rightarrow> bool" where
  "survives msg =
     (case js_get msg ''content'' of
        Inr (JStr s) \<Rightarrow> trim s \<noteq> []
      | _ \<Rightarrow> False)"

definition forwarded :: "jsval \<Rightarrow> message" where
  "forwarded msg =
     \<lparr>role = (if js_get msg ''role'' = Inr (JStr ''assistant'') then ''assistant'' else ''user''),
      content = (case js_get msg ''content'' of Inr (JStr s) \<Rightarrow> trim s | _ \<Rightarrow> [])\<rparr>"

text \<open>A conversation with a system message, a blank message, a message without content
  and a message of an unknown role; an SDK that answers, a clock, and chat bodies.\<close>

definition example_messages :: "jsval list" where
  "example_messages =
     [JObj [(''role'', JStr ''system''), (''content'', JStr '' You are terse. '')],
      JObj [(''role'', JStr ''user''), (''content'', JStr ''   '')],
      JObj [(''role'', JStr ''assistant''), (''content'', JStr ''Hi'')],
      JObj [(''role'', JStr ''user'')],
      JObj [(''role'', JStr ''tool''), (''content'', JStr ''42'')]]"

definition gemini_chat :: model_config where
  "gemini_chat = \<lparr>provider = ''google'', model = ''gemini-2.5-flash'', mtype = None\<rparr>"

definition example_sdk :: sdk where
  "example_sdk =
     \<lparr>generateText = (\<lambda>call. Inr (JObj [(''text'', JStr ''Hello'')])),
      streamText = (\<lambda>call. Streams [''He'', ''llo''] None JUndefined)\<rparr>"

definition example_clock :: clock where
  "example_clock k = ''2025-01-01T00:00:00.000Z''"




text \<open>A streaming chat request, an SDK whose stream throws after one delta, and the call
  both receive.\<close>

definition stream_chat :: jsval where
  "stream_chat =
     JObj [(''model'', JStr ''gemini-2.5-flash''), (''messages'', JArr example_messages),
           (''stream'', JBool True)]"

definition failing_sdk :: sdk where
  "failing_sdk =
     \<lparr>generateText = (\<lambda>call. Inl ''socket hang up''),
      streamText = (\<lambda>call. Streams [''He''] (Some ''socket hang up'') JUndefined)\<rparr>"

definition prepared_call :: gen_call where
  "prepared_call =
     \<lparr>via_provider = ''google'', via_model = ''gemini-2.5-flash'',
      messages = [\<lparr>role = ''user'', content = ''You are terse.''\<rparr>,
                  \<lparr>role = ''assistant'', content = ''Hi''\<rparr>,
                  \<lparr>role = ''user'', content = ''42''\<rparr>],
      temperature = JUndefined, maxTokens = JUndefined, topP = JUndefined\<rparr>"

text \<open>Reading a streamed response: the objects written as NDJSON lines, in order; the
  content a chunk carries for the key of the endpoint; the value of its \<^verbatim>\<open>done\<close>.\<close>

definition ndjson_objects :: "response \<Rightarrow> jsval list" where
  "ndjson_objects response =
     concat (map (\<lambda>a. case a of Write v \<Rightarrow> [v] | _ \<Rightarrow> []) response)"

definition chunk_content :: "string \<Rightarrow> jsval \<Rightarrow> jsval result" where
  "chunk_content responseKey chunk =
     (if responseKey = ''message''
      then (case js_get chunk ''message'' of
              Inl err \<Rightarrow> Inl err
            | Inr m \<Rightarrow> js_get m ''content'')
      else js_get chunk responseKey)"

definition not_done :: "jsval \<Rightarrow> bool" where
  "not_done chunk = (js_get chunk ''done'' = Inr (JBool False))"

definition is_done :: "jsval \<Rightarrow> bool" where
  "is_done chunk = (js_get chunk ''done'' = Inr (JBool True))"

text \<open>A well-formed stream: the NDJSON headers, one line per object, the end; the last
  object is the only one with \<^verbatim>\<open>done: true\<close>.\<close>

definition stream_shape :: "response \<Rightarrow> bool" where
  "stream_shape response =
     (response = ndjson_headers # map Write (ndjson_objects response) @ [End None] \<and>
      ndjson_objects response \<noteq> [] \<and>
      list_all not_done (butlast (ndjson_objects response)) \<and>
      is_done (last (ndjson_objects response)))"

text \<open>An upstream that answers the text \<^verbatim>\<open>Text 3\<close> with a given outcome, a batch with that
  text in the middle, and an upstream that answers the first text with an empty array.\<close>

definition failing_upstream :: "fetch_outcome \<Rightarrow> upstream" where
  "failing_upstream outcome i call =
     (if call_text call = ''Text 3'' then outcome else example_upstream i call)"

definition mid_fail_body :: jsval where
  "mid_fail_body =
     JObj [(''model'', JStr ''text-embedding-004''),
           (''input'', JArr [JStr ''Text 1'', JStr ''Text 3'', JStr ''Text 2''])]"

definition mid_fail_request :: embedding_request where
  "mid_fail_request =
     \<lparr>modelConfig = google_embedding, inputTexts = [''Text 1'', ''Text 3'', ''Text 2''],
      isSingleText = False\<rparr>"

definition empty_first_upstream :: upstream where
  "empty_first_upstream i call =
     (if call_text call = ''Text 1'' then vector_reply []
      else vector_reply [JNum ''0.3'', JNum ''0.4''])"

text \<open>The batch was aborted at index \<open>k\<close> with the error \<open>err\<close>: \<^verbatim>\<open>generateEmbeddings\<close>
  issued the calls for the indices \<open>0..k\<close> and no other and failed with \<open>err\<close>, and the
  handler answered with the error envelope for \<open>err\<close>, whose status is not 200.\<close>

definition aborted_at ::
  "env \<Rightarrow> upstream \<Rightarrow> string \<Rightarrow> jsval \<Rightarrow> embedding_request \<Rightarrow> nat \<Rightarrow> string \<Rightarrow> bool" where
  "aborted_at e up timestamp body req k err =
     (generateEmbeddings e up (modelConfig req) (inputTexts req)
        = (map (the_call (modelConfig req)) (take (Suc k) (inputTexts req)), Inl err) \<and>
      post_api_embeddings e up timestamp body []
        = (map (the_call (modelConfig req)) (take (Suc k) (inputTexts req)),
           [WriteHead (fst (classify err)) ''application/json'',
            End (Some (JObj [(''error'', JStr (snd (classify err)))]))]) \<and>
      fst (classify err) \<noteq> 200)"


definition constructor_body :: jsval where
  "constructor_body = JObj [(''model'', JStr ''constructor''), (''prompt'', JStr ''Hello world'')]"




text \<open>The response \<^verbatim>\<open>sendJSON(response, { error: message }, status)\<close> leaves on a fresh
  response.\<close>

definition error_response :: "nat \<Rightarrow> string \<Rightarrow> response" where
  "error_response status message =
     [WriteHead status ''application/json'', End (Some (JObj [(''error'', JStr message)]))]"

section \<open>Properties\<close>

subsection \<open>Strings and numbers\<close>

lemma show_nat_digit: "n < 10 \<Longrightarrow> show_nat n = [digit n]"
  by (simp add: show_nat.simps)

lemma show_nat_100: "show_nat 100 = ''100''"
  by (simp add: show_nat.simps [of 100] show_nat.simps [of 10] show_nat_digit digit_def)

lemma show_nat_10000: "show_nat 10000 = ''10000''"
  by (simp add: show_nat.simps [of 10000] show_nat.simps [of 1000] show_nat.simps [of 100]
      show_nat.simps [of 10] show_nat_digit digit_def)

lemma includes_mid: "js_includes (a @ p @ b) p"
  by (simp add: js_includes_def)

lemma includes_end: "js_includes (a @ p) p"
  by (simp add: js_includes_def)

subsection \<open>The embedding loop\<close>

lemma embed_loop_ok:
  "length vecs = length texts \<Longrightarrow>
   \<forall>j < length texts. embed_one up config (i + j) (texts ! j) = Inr (vecs ! j) \<Longrightarrow>
   embed_loop up config texts i calls embs
     = (calls @ map (the_call config) texts, Inr (embs @ vecs))"
proof (induction texts arbitrary: i calls embs vecs)
  case Nil
  then show ?case by simp
next
  case (Cons t ts)
  then obtain v vs where vecs: "vecs = v # vs" by (cases vecs) auto
  from Cons.prems(2) have h0: "embed_one up config i t = Inr v"
    using vecs by fastforce
  have hs: "\<forall>j < length ts. embed_one up config (Suc i + j) (ts ! j) = Inr (vs ! j)"
  proof (intro allI impI)
    fix j assume "j < length ts"
    then have "Suc j < length (t # ts)" by simp
    with Cons.prems(2) have "embed_one up config (i + Suc j) ((t # ts) ! Suc j) = Inr (vecs ! Suc j)"
      by blast
    then show "embed_one up config (Suc i + j) (ts ! j) = Inr (vs ! j)"
      using vecs by simp
  qed
  from Cons.prems(1) vecs have len: "length vs = length ts" by simp
  show ?case
    using Cons.IH [OF len hs, of "calls @ [the_call config t]" "embs @ [v]"] h0 vecs
    by simp
qed

lemma embed_loop_fails:
  "k < length texts \<Longrightarrow>
   \<forall>j < k. \<exists>v. embed_one up config (i + j) (texts ! j) = Inr v \<Longrightarrow>
   embed_one up config (i + k) (texts ! k) = Inl err \<Longrightarrow>
   embed_loop up config texts i calls embs
     = (calls @ map (the_call config) (take (Suc k) texts), Inl err)"
proof (induction texts arbitrary: i k calls embs)
  case Nil
  then show ?case by simp
next
  case (Cons t ts)
  show ?case
  proof (cases k)
    case 0
    with Cons.prems show ?thesis by simp
  next
    case (Suc k')
    from Cons.prems(2) Suc obtain v where h0: "embed_one up config i t = Inr v"
      by fastforce
    have hs: "\<forall>j < k'. \<exists>v. embed_one up config (Suc i + j) (ts ! j) = Inr v"
    proof (intro allI impI)
      fix j assume "j < k'"
      then have "Suc j < k" using Suc by simp
      with Cons.prems(2) obtain w where
        "embed_one up config (i + Suc j) ((t # ts) ! Suc j) = Inr w" by blast
      then show "\<exists>v. embed_one up config (Suc i + j) (ts ! j) = Inr v" by simp
    qed
    from Cons.prems(1) Suc have lt: "k' < length ts" by simp
    from Cons.prems(3) Suc have hk: "embed_one up config (Suc i + k') (ts ! k') = Inl err"
      by simp
    show ?thesis
      using Cons.IH [OF lt hs hk, of "calls @ [the_call config t]" "embs @ [v]"] h0 Suc
      by simp
  qed
qed

lemma js_get_values_truthy: "js_get emb k = Inr (JArr v) \<Longrightarrow> truthy emb"
  by (cases emb) auto

subsection \<open>The response validator\<close>

lemma isArray_iff: "isArray v \<longleftrightarrow> (\<exists>xs. v = JArr xs)"
  by (cases v) auto

lemma isString_iff: "isString v \<longleftrightarrow> (\<exists>s. v = JStr s)"
  by (cases v) auto

lemma check_embedding_objs_sound:
  "check_embedding_objs es i = Inr u \<Longrightarrow>
   \<exists>vs. those (map (\<lambda>obj. case js_get obj ''embedding'' of
                            Inr (JArr v) \<Rightarrow> Some (JArr v) | _ \<Rightarrow> None) es) = Some vs
        \<and> length vs = length es \<and> list_all (\<lambda>v. js_length v \<noteq> 0) vs"
proof (induction es arbitrary: i)
  case Nil
  then show ?case by simp
next
  case (Cons obj rest)
  from Cons.prems obtain v where
    g: "js_get obj ''embedding'' = Inr v" and arr: "isArray v" and ne: "js_length v \<noteq> 0"
    and r: "check_embedding_objs rest (Suc i) = Inr u"
    by (auto split: sum.splits if_splits)
  from arr obtain xs where v: "v = JArr xs" by (auto simp: isArray_iff)
  from Cons.IH [OF r] obtain vs where
    "those (map (\<lambda>obj. case js_get obj ''embedding'' of
                            Inr (JArr v) \<Rightarrow> Some (JArr v) | _ \<Rightarrow> None) rest) = Some vs"
    "length vs = length rest" "list_all (\<lambda>v. js_length v \<noteq> 0) vs" by blast
  with g v ne show ?case by simp
qed

lemma check_vectors_sound:
  assumes "check_vectors r n = Inr u"
  shows "\<exists>vs. vectors_of r = Some vs \<and> length vs = n \<and> list_all (\<lambda>v. js_length v \<noteq> 0) vs"
proof -
  from assms obtain single where s: "js_get r ''embedding'' = Inr single"
    by (auto simp: check_vectors_def split: sum.splits)
  show ?thesis
  proof (cases "truthy single")
    case True
    with assms s obtain xs where "single = JArr xs" "xs \<noteq> []" "n = 1"
      by (auto simp: check_vectors_def isArray_iff split: if_splits)
    with s show ?thesis by (simp add: vectors_of_def)
  next
    case False
    then have notarr: "\<And>xs. single \<noteq> JArr xs" by auto
    from assms s False obtain es where
      m: "js_get r ''embeddings'' = Inr (JArr es)" and len: "length es = n"
      and c: "check_embedding_objs es 0 = Inr u"
      by (auto simp: check_vectors_def split: sum.splits if_splits jsval.splits)
    from check_embedding_objs_sound [OF c] len m s notarr show ?thesis
      by (cases single) (auto simp: vectors_of_def)
  qed
qed

lemma validateEmbeddingResponse_sound:
  assumes "validateEmbeddingResponse r n = Inr b"
  shows "envelope_ok r n"
proof -
  from assms obtain u where c: "check_vectors r n = Inr u"
    by (auto simp: validateEmbeddingResponse_def split: sum.splits if_splits)
  from assms c obtain m where m: "js_get r ''model'' = Inr m" "isString m"
    by (auto simp: validateEmbeddingResponse_def split: sum.splits if_splits)
  from assms c m obtain t where t: "js_get r ''created_at'' = Inr t" "isString t"
    by (auto simp: validateEmbeddingResponse_def split: sum.splits if_splits)
  from check_vectors_sound [OF c] m t show ?thesis
    by (auto simp: envelope_ok_def string_field_def isString_iff)
qed

lemma check_embedding_objs_formatted:
  "list_all (\<lambda>v. isArray v \<and> js_length v \<noteq> 0) embs \<Longrightarrow>
   check_embedding_objs (map (\<lambda>embedding. JObj [(''embedding'', embedding)]) embs) i = Inr ()"
proof (induction embs arbitrary: i)
  case Nil
  then show ?case by simp
next
  case (Cons v vs)
  then show ?case by (auto simp: isArray_iff)
qed

lemma validate_formatted_single:
  "name \<noteq> [] \<Longrightarrow> ts \<noteq> [] \<Longrightarrow> xs \<noteq> [] \<Longrightarrow>
   validateEmbeddingResponse
     (formatEmbeddingResponse \<lparr>embeddings = [JArr xs], res_model = rm, dimensions = d\<rparr>
        (JStr name) True ts) 1 = Inr True"
  by (simp add: validateEmbeddingResponse_def formatEmbeddingResponse_def check_vectors_def)

lemma validate_formatted_multi:
  "name \<noteq> [] \<Longrightarrow> ts \<noteq> [] \<Longrightarrow> list_all (\<lambda>v. isArray v \<and> js_length v \<noteq> 0) embs \<Longrightarrow>
   validateEmbeddingResponse
     (formatEmbeddingResponse \<lparr>embeddings = embs, res_model = rm, dimensions = d\<rparr>
        (JStr name) False ts) (length embs) = Inr True"
  by (simp add: validateEmbeddingResponse_def formatEmbeddingResponse_def check_vectors_def
      check_embedding_objs_formatted)

lemma those_formatted:
  "list_all isArray embs \<Longrightarrow>
   those (map (\<lambda>obj. case js_get obj ''embedding'' of
                        Inr (JArr v) \<Rightarrow> Some (JArr v) | _ \<Rightarrow> None)
            (map (\<lambda>embedding. JObj [(''embedding'', embedding)]) embs)) = Some embs"
  by (induction embs) (auto simp: isArray_iff)

lemma vectors_of_formatted_multi:
  "list_all isArray embs \<Longrightarrow>
   vectors_of (formatEmbeddingResponse \<lparr>embeddings = embs, res_model = rm, dimensions = d\<rparr>
                 nm False ts) = Some embs"
  by (simp add: vectors_of_def formatEmbeddingResponse_def those_formatted del: map_map)

lemma vectors_of_formatted_single:
  "vectors_of (formatEmbeddingResponse \<lparr>embeddings = [JArr xs], res_model = rm, dimensions = d\<rparr>
                 nm True ts) = Some [JArr xs]"
  by (simp add: vectors_of_def formatEmbeddingResponse_def)

subsection \<open>Accepted embedding requests\<close>

lemma validate_accepted:
  assumes "validateEmbeddingRequest e body = Inr req"
  shows "\<exists>m prompt input.
           js_get body ''model'' = Inr m \<and> truthy m \<and>
           validateEmbeddingModel e m = Inr (modelConfig req) \<and>
           js_get body ''prompt'' = Inr prompt \<and> js_get body ''input'' = Inr input \<and>
           parse_inputs prompt input = Inr (inputTexts req) \<and>
           length (inputTexts req) \<le> maxTexts \<and>
           check_lengths (inputTexts req) 0 = Inr () \<and>
           isSingleText req = (length (inputTexts req) = 1 \<and> prompt \<noteq> JUndefined)"
  using assms unfolding validateEmbeddingRequest_def
  by (auto split: sum.splits if_splits)

lemma map_input_length: "map_input xs i = Inr ts \<Longrightarrow> length ts = length xs"
proof (induction xs arbitrary: i ts)
  case Nil
  then show ?case by simp
next
  case (Cons x xs)
  then show ?case by (auto split: jsval.splits if_splits sum.splits)
qed

lemma parse_inputs_nonempty: "parse_inputs prompt input = Inr ts \<Longrightarrow> ts \<noteq> []"
  unfolding parse_inputs_def
  by (auto split: if_splits jsval.splits dest: map_input_length)

lemma batch_body_accepted:
  "validateEmbeddingRequest example_env batch_body
     = Inr \<lparr>modelConfig = google_embedding, inputTexts = [''Text 1'', ''Text 2''],
            isSingleText = False\<rparr>"
  by (simp add: validateEmbeddingRequest_def batch_body_def example_env_def
      validateEmbeddingModel_def parse_inputs_def trim_def is_ws_def maxTexts_def
      maxTextLength_def google_embedding_def)

subsection \<open>Batches keep their order\<close>

text \<open>
  C1. Take a request that \<^verbatim>\<open>validateEmbeddingRequest\<close> accepts, whose model name is a
  string and whose model is served by Google with the key present, and let every
  upstream call, the one for the text at index \<open>i\<close> included, answer with a non-empty
  array \<open>vecs ! i\<close>. The timestamp is not empty, as \<^verbatim>\<open>toISOString\<close> never returns the
  empty string. Then the batch has between 1 and 100 texts, the handler issues one
  call per text in input order, answers with status 200, and the envelope carries
  exactly the vectors \<open>vecs\<close>, the one at position \<open>i\<close> being the answer for the text
  at index \<open>i\<close>.
\<close>

theorem C1_batch_order_preserved:
  assumes accepted: "validateEmbeddingRequest e body = Inr req"
    and name: "js_get body ''model'' = Inr (JStr name)"
    and google: "provider (modelConfig req) = ''google''"
    and key: "env_truthy (GEMINI_API_KEY e)"
    and clock: "timestamp \<noteq> []"
    and len: "length vecs = length (inputTexts req)"
    and ups: "\<forall>i < length (inputTexts req). \<exists>reply emb.
                up i (the_call (modelConfig req) (inputTexts req ! i)) = Ok reply \<and>
                js_get reply ''embedding'' = Inr emb \<and>
                js_get emb ''values'' = Inr (JArr (vecs ! i)) \<and> vecs ! i \<noteq> []"
  shows "1 \<le> length (inputTexts req) \<and> length (inputTexts req) \<le> 100 \<and>
         (\<exists>envelope.
            post_api_embeddings e up timestamp body []
              = (map (the_call (modelConfig req)) (inputTexts req),
                 [WriteHead 200 ''application/json'', End (Some envelope)]) \<and>
            vectors_of envelope = Some (map JArr vecs))"
proof -
  let ?texts = "inputTexts req" and ?cfg = "modelConfig req"
  from validate_accepted [OF accepted] obtain m prompt input where
    m: "js_get body ''model'' = Inr m" "truthy m"
    and parse: "parse_inputs prompt input = Inr ?texts"
    and bound: "length ?texts \<le> maxTexts"
    and single: "isSingleText req = (length ?texts = 1 \<and> prompt \<noteq> JUndefined)"
    by blast
  from m name have nm: "name \<noteq> []" by auto
  from parse_inputs_nonempty [OF parse] have ne: "1 \<le> length ?texts"
    by (cases ?texts) auto
  have one: "\<forall>j < length ?texts. embed_one up ?cfg (0 + j) (?texts ! j) = Inr (map JArr vecs ! j)"
  proof (intro allI impI)
    fix j assume j: "j < length ?texts"
    with ups obtain reply emb where
      r: "up j (the_call ?cfg (?texts ! j)) = Ok reply"
         "js_get reply ''embedding'' = Inr emb"
         "js_get emb ''values'' = Inr (JArr (vecs ! j))"
      by blast
    from r js_get_values_truthy [OF r(3)]
    have "embed_one up ?cfg j (?texts ! j) = Inr (JArr (vecs ! j))"
      by (simp add: embed_one_def)
    with j len show "embed_one up ?cfg (0 + j) (?texts ! j) = Inr (map JArr vecs ! j)" by simp
  qed
  have loop: "embed_loop up ?cfg ?texts 0 [] []
                = (map (the_call ?cfg) ?texts, Inr (map JArr vecs))"
    using embed_loop_ok [of "map JArr vecs" ?texts up ?cfg 0 "[]" "[]"] one len by simp
  define res where
    "res = \<lparr>embeddings = map JArr vecs, res_model = model ?cfg,
            dimensions = (case map JArr vecs of [] \<Rightarrow> 0 | v # vs \<Rightarrow> js_length v)\<rparr>"
  have gen: "generateEmbeddings e up ?cfg ?texts = (map (the_call ?cfg) ?texts, Inr res)"
    using google key loop by (simp add: generateEmbeddings_def res_def)
  have all_ne: "list_all (\<lambda>v. isArray v \<and> js_length v \<noteq> 0) (map JArr vecs)"
    using ups len by (auto simp: list_all_length)
  define envelope where
    "envelope = formatEmbeddingResponse res (JStr name) (isSingleText req) timestamp"
  have valid: "validateEmbeddingResponse envelope (length ?texts) = Inr True
               \<and> vectors_of envelope = Some (map JArr vecs)"
  proof (cases "isSingleText req")
    case True
    with single len obtain v where v: "vecs = [v]"
      by (cases vecs) auto
    from ups len v have "vecs ! 0 \<noteq> []" by (metis length_Cons less_Suc_eq_0_disj)
    with v have "v \<noteq> []" by simp
    with True v nm clock single show ?thesis
      using validate_formatted_single [of name timestamp v]
        vectors_of_formatted_single [of v]
      by (simp add: envelope_def res_def)
  next
    case False
    have "list_all isArray (map JArr vecs)" by (simp add: list_all_iff)
    with False nm clock all_ne len show ?thesis
      using validate_formatted_multi [of name timestamp "map JArr vecs"]
        vectors_of_formatted_multi [of "map JArr vecs"]
      by (simp add: envelope_def res_def)
  qed
  have "post_api_embeddings e up timestamp body []
          = (map (the_call ?cfg) ?texts, [WriteHead 200 ''application/json'', End (Some envelope)])"
    using accepted gen name valid
    by (simp add: post_api_embeddings_def envelope_def sendJSON_def)
  with valid ne bound show ?thesis by (auto simp: maxTexts_def)
qed

theorem C1_batch_order_preserved_witness:
  "validateEmbeddingRequest example_env batch_body
     = Inr \<lparr>modelConfig = google_embedding, inputTexts = [''Text 1'', ''Text 2''],
            isSingleText = False\<rparr> \<and>
   (\<exists>envelope.
      post_api_embeddings example_env example_upstream ''2025-01-01T00:00:00.000Z'' batch_body []
        = ([the_call google_embedding ''Text 1'', the_call google_embedding ''Text 2''],
           [WriteHead 200 ''application/json'', End (Some envelope)]) \<and>
      vectors_of envelope
        = Some [JArr [JNum ''0.1'', JNum ''0.2''], JArr [JNum ''0.3'', JNum ''0.4'']])"
proof -
  let ?req = "\<lparr>modelConfig = google_embedding, inputTexts = [''Text 1'', ''Text 2''],
               isSingleText = False\<rparr>"
  let ?vecs = "[ [JNum ''0.1'', JNum ''0.2''], [JNum ''0.3'', JNum ''0.4''] ]"
  have h1: "validateEmbeddingRequest example_env batch_body = Inr ?req"
    by (rule batch_body_accepted)
  have h2: "js_get batch_body ''model'' = Inr (JStr ''text-embedding-004'')"
    by (simp add: batch_body_def)
  have h3: "provider (modelConfig ?req) = ''google''"
    by (simp add: google_embedding_def)
  have h4: "env_truthy (GEMINI_API_KEY example_env)"
    by (simp add: example_env_def)
  have h5: "''2025-01-01T00:00:00.000Z'' \<noteq> []" by simp
  have h6: "length ?vecs = length (inputTexts ?req)" by simp
  have h7: "\<forall>i < length (inputTexts ?req). \<exists>reply emb.
                example_upstream i (the_call (modelConfig ?req) (inputTexts ?req ! i)) = Ok reply \<and>
                js_get reply ''embedding'' = Inr emb \<and>
                js_get emb ''values'' = Inr (JArr (?vecs ! i)) \<and> ?vecs ! i \<noteq> []"
    by (simp add: example_upstream_def the_call_def vector_reply_def less_Suc_eq
        numeral_2_eq_2)
  from C1_batch_order_preserved
         [where e = example_env and body = batch_body and req = ?req and vecs = ?vecs
            and up = example_upstream and name = "''text-embedding-004''"
            and timestamp = "''2025-01-01T00:00:00.000Z''",
          OF h1 h2 h3 h4 h5 h6 h7] h1
  show ?thesis by simp
qed

subsection \<open>Failures of the embedding endpoint\<close>

lemma show_nat_500: "show_nat 500 = ''500''"
  by (simp add: show_nat.simps [of 500] show_nat.simps [of 50] show_nat_digit digit_def)

lemma classify_boom: "classify ''Google API error (500): boom'' = (500, ''Internal server error'')"
  by (simp add: classify_def js_includes_def sublist_Cons_right)

lemma classify_only_google:
  "classify ''Only Google embedding models are currently supported, got: openai''
     = (500, ''Internal server error'')"
  by (simp add: classify_def js_includes_def sublist_Cons_right)

lemma classify_status: "fst (classify m) \<noteq> 200"
  by (simp add: classify_def)

lemma handleEmbeddingError_fresh:
  "handleEmbeddingError err []
     = [WriteHead (fst (classify err)) ''application/json'',
        End (Some (JObj [(''error'', JStr (snd (classify err)))]))]"
  by (simp add: handleEmbeddingError_def headersSent_def sendJSON_def split: prod.splits)

lemma batch3_body_accepted:
  "validateEmbeddingRequest example_env batch3_body
     = Inr \<lparr>modelConfig = google_embedding, inputTexts = [''Text 1'', ''Text 2'', ''Text 3''],
            isSingleText = False\<rparr>"
  by (simp add: validateEmbeddingRequest_def batch3_body_def example_env_def
      validateEmbeddingModel_def parse_inputs_def trim_def is_ws_def maxTexts_def
      maxTextLength_def google_embedding_def)

lemma openai_body_accepted:
  "validateEmbeddingRequest example_env openai_body
     = Inr \<lparr>modelConfig = openai_embedding, inputTexts = [''Hello world''],
            isSingleText = True\<rparr>"
  by (simp add: validateEmbeddingRequest_def openai_body_def example_env_def
      validateEmbeddingModel_def parse_inputs_def trim_def is_ws_def maxTexts_def
      maxTextLength_def openai_embedding_def)

text \<open>
  C9. For a model configuration whose provider is not \<^verbatim>\<open>google\<close>,
  \<^verbatim>\<open>generateEmbeddings\<close> issues no upstream call and fails with the message that only
  Google embedding models are supported; the handler then answers with the error
  envelope of that message.
\<close>

theorem C9_only_google_embeddings:
  assumes "provider config \<noteq> ''google''"
  shows "generateEmbeddings e up config texts
           = ([], Inl (''Only Google embedding models are currently supported, got: ''
                       @ provider config)) \<and>
         (validateEmbeddingRequest e body
            = Inr \<lparr>modelConfig = config, inputTexts = texts, isSingleText = single\<rparr> \<longrightarrow>
          post_api_embeddings e up timestamp body []
            = ([], handleEmbeddingError
                     (''Only Google embedding models are currently supported, got: ''
                      @ provider config) []))"
  using assms by (simp add: generateEmbeddings_def post_api_embeddings_def)

theorem C9_only_google_embeddings_witness:
  "provider openai_embedding \<noteq> ''google'' \<and>
   generateEmbeddings example_env example_upstream openai_embedding [''Hello world'']
     = ([], Inl ''Only Google embedding models are currently supported, got: openai'') \<and>
   post_api_embeddings example_env example_upstream ''2025-01-01T00:00:00.000Z'' openai_body []
     = ([], [WriteHead 500 ''application/json'',
             End (Some (JObj [(''error'', JStr ''Internal server error'')]))])"
proof -
  have h: "provider openai_embedding \<noteq> ''google''"
    by (simp add: openai_embedding_def)
  have p: "provider openai_embedding = ''openai''"
    by (simp add: openai_embedding_def)
  from C9_only_google_embeddings
         [where config = openai_embedding and e = example_env and up = example_upstream
            and texts = "[''Hello world'']" and body = openai_body and single = True
            and timestamp = "''2025-01-01T00:00:00.000Z''", OF h]
       openai_body_accepted h
  show ?thesis
    by (simp add: p handleEmbeddingError_fresh classify_only_google)
qed

lemma post_api_embeddings_cases:
  "(\<exists>calls err. post_api_embeddings e up timestamp body []
                   = (calls, handleEmbeddingError err [])) \<or>
   (\<exists>calls req sent. post_api_embeddings e up timestamp body []
                        = (calls, sendJSON [] sent 200) \<and>
                      validateEmbeddingRequest e body = Inr req \<and>
                      validateEmbeddingResponse sent (length (inputTexts req)) = Inr True)"
proof (cases "validateEmbeddingRequest e body")
  case (Inl err)
  then have "post_api_embeddings e up timestamp body [] = ([], handleEmbeddingError err [])"
    by (simp add: post_api_embeddings_def)
  then show ?thesis by blast
next
  case (Inr req)
  obtain calls r where g: "generateEmbeddings e up (modelConfig req) (inputTexts req) = (calls, r)"
    by (cases "generateEmbeddings e up (modelConfig req) (inputTexts req)") auto
  show ?thesis
  proof (cases r)
    case (Inl err)
    with Inr g have "post_api_embeddings e up timestamp body []
                       = (calls, handleEmbeddingError err [])"
      by (simp add: post_api_embeddings_def)
    then show ?thesis by blast
  next
    case res: (Inr embeddingResult)
    show ?thesis
    proof (cases "js_get body ''model''")
      case (Inl err)
      with Inr g res have "post_api_embeddings e up timestamp body []
                             = (calls, handleEmbeddingError err [])"
        by (simp add: post_api_embeddings_def)
      then show ?thesis by blast
    next
      case nm: (Inr modelName)
      let ?sent = "formatEmbeddingResponse embeddingResult modelName (isSingleText req) timestamp"
      show ?thesis
      proof (cases "validateEmbeddingResponse ?sent (length (inputTexts req))")
        case (Inl err)
        with Inr g res nm have "post_api_embeddings e up timestamp body []
                                  = (calls, handleEmbeddingError err [])"
          by (simp add: post_api_embeddings_def)
        then show ?thesis by blast
      next
        case ok: (Inr b)
        then have "b" 
          by (auto simp: validateEmbeddingResponse_def split: sum.splits if_splits)
        with Inr g res nm ok
        have "post_api_embeddings e up timestamp body [] = (calls, sendJSON [] ?sent 200)"
          and "validateEmbeddingResponse ?sent (length (inputTexts req)) = Inr True"
          by (simp_all add: post_api_embeddings_def)
        with Inr show ?thesis by blast
      qed
    qed
  qed
qed

text \<open>
  C6. Whenever the embeddings handler writes a head with status 200, the request was
  accepted, the response is that head followed by one JSON body, and that body passed
  \<^verbatim>\<open>validateEmbeddingResponse\<close> for the number of input texts: it carries exactly that
  many vectors (at least one), none of them empty, and \<^verbatim>\<open>model\<close> and \<^verbatim>\<open>created_at\<close>
  are strings.
\<close>

theorem C6_success_passes_second_validation:
  assumes run: "post_api_embeddings e up timestamp body [] = (calls, response)"
    and ok: "WriteHead 200 ctype \<in> set response"
  shows "\<exists>req sent.
           validateEmbeddingRequest e body = Inr req \<and>
           response = [WriteHead 200 ''application/json'', End (Some sent)] \<and>
           validateEmbeddingResponse sent (length (inputTexts req)) = Inr True \<and>
           1 \<le> length (inputTexts req) \<and>
           envelope_ok sent (length (inputTexts req))"
proof -
  from post_api_embeddings_cases [of e up timestamp body]
  show ?thesis
  proof (elim disjE exE conjE)
    fix calls' err
    assume "post_api_embeddings e up timestamp body [] = (calls', handleEmbeddingError err [])"
    with run have "response = handleEmbeddingError err []" by simp
    with ok have False by (simp add: handleEmbeddingError_fresh classify_status)
    then show ?thesis ..
  next
    fix calls' req sent
    assume p: "post_api_embeddings e up timestamp body [] = (calls', sendJSON [] sent 200)"
      and v: "validateEmbeddingRequest e body = Inr req"
      and r: "validateEmbeddingResponse sent (length (inputTexts req)) = Inr True"
    from validate_accepted [OF v] obtain prompt input where
      "parse_inputs prompt input = Inr (inputTexts req)" by blast
    from parse_inputs_nonempty [OF this] have ne: "1 \<le> length (inputTexts req)"
      by (cases "inputTexts req") auto
    from p run have "response = [WriteHead 200 ''application/json'', End (Some sent)]"
      by (simp add: sendJSON_def)
    with v r ne validateEmbeddingResponse_sound [OF r] show ?thesis by blast
  qed
qed

lemma batch_body_model: "js_get batch_body ''model'' = Inr (JStr ''text-embedding-004'')"
  by (simp add: batch_body_def)

theorem C6_success_passes_second_validation_witness:
  "post_api_embeddings example_env example_upstream ''2025-01-01T00:00:00.000Z'' batch_body []
     = ([the_call google_embedding ''Text 1'', the_call google_embedding ''Text 2''],
        [WriteHead 200 ''application/json'',
         End (Some (JObj [(''embeddings'',
                            JArr [JObj [(''embedding'', JArr [JNum ''0.1'', JNum ''0.2''])],
                                  JObj [(''embedding'', JArr [JNum ''0.3'', JNum ''0.4''])]]),
                          (''model'', JStr ''text-embedding-004''),
                          (''created_at'', JStr ''2025-01-01T00:00:00.000Z'')]))]) \<and>
   envelope_ok (JObj [(''embeddings'',
                            JArr [JObj [(''embedding'', JArr [JNum ''0.1'', JNum ''0.2''])],
                                  JObj [(''embedding'', JArr [JNum ''0.3'', JNum ''0.4''])]]),
                          (''model'', JStr ''text-embedding-004''),
                          (''created_at'', JStr ''2025-01-01T00:00:00.000Z'')]) 2"
proof -
  let ?sent = "JObj [(''embeddings'',
                            JArr [JObj [(''embedding'', JArr [JNum ''0.1'', JNum ''0.2''])],
                                  JObj [(''embedding'', JArr [JNum ''0.3'', JNum ''0.4''])]]),
                          (''model'', JStr ''text-embedding-004''),
                          (''created_at'', JStr ''2025-01-01T00:00:00.000Z'')]"
  let ?calls = "[the_call google_embedding ''Text 1'', the_call google_embedding ''Text 2'']"
  let ?response = "[WriteHead 200 ''application/json'', End (Some ?sent)]"
  have gen: "generateEmbeddings example_env example_upstream google_embedding
               [''Text 1'', ''Text 2'']
             = (?calls, Inr \<lparr>embeddings = [JArr [JNum ''0.1'', JNum ''0.2''],
                                              JArr [JNum ''0.3'', JNum ''0.4'']],
                             res_model = ''text-embedding-004'', dimensions = 2\<rparr>)"
    by (simp add: generateEmbeddings_def google_embedding_def example_env_def embed_one_def
        example_upstream_def the_call_def vector_reply_def)
  have run: "post_api_embeddings example_env example_upstream ''2025-01-01T00:00:00.000Z''
               batch_body [] = (?calls, ?response)"
    by (simp add: post_api_embeddings_def batch_body_accepted gen batch_body_model
        formatEmbeddingResponse_def validateEmbeddingResponse_def check_vectors_def
        sendJSON_def)
  have ok: "WriteHead 200 ''application/json'' \<in> set ?response" by simp
  from C6_success_passes_second_validation [OF run ok] batch_body_accepted run
  show ?thesis by (simp add: numeral_2_eq_2)
qed

subsection \<open>Limits of an embedding request\<close>

lemma dropWhile_fixed: "xs \<noteq> [] \<Longrightarrow> \<not> P (hd xs) \<Longrightarrow> dropWhile P xs = xs"
  by (cases xs) auto

lemma trim_idem: "trim (trim s) = trim s"
proof -
  define u where "u = dropWhile is_ws s"
  define w where "w = dropWhile is_ws (rev u)"
  have t: "trim s = rev w" by (simp add: trim_def u_def w_def)
  have "dropWhile is_ws (rev w) = rev w"
  proof (cases "w = []")
    case True
    then show ?thesis by simp
  next
    case False
    then have u: "u \<noteq> []" by (auto simp: w_def)
    have "rev u = takeWhile is_ws (rev u) @ w" by (simp add: w_def)
    with False have "last (rev u) = last w" by (metis last_appendR)
    with u have "last w = hd u" by (simp add: last_rev)
    with False have h: "hd (rev w) = hd u" by (simp add: hd_rev)
    from u have "\<not> is_ws (hd u)" unfolding u_def by (rule hd_dropWhile)
    with h have "\<not> is_ws (hd (rev w))" by simp
    with False show ?thesis by (intro dropWhile_fixed) simp_all
  qed
  moreover have "dropWhile is_ws w = w" by (simp add: w_def)
  ultimately have "trim (rev w) = rev w" by (simp add: trim_def)
  with t show ?thesis by simp
qed

lemma trim_fixed:
  assumes "s \<noteq> []" "\<not> is_ws (hd s)" "\<not> is_ws (last s)"
  shows "trim s = s"
proof -
  from assms have 1: "dropWhile is_ws s = s" by (intro dropWhile_fixed)
  from assms have "rev s \<noteq> []" "\<not> is_ws (hd (rev s))" by (simp_all add: hd_rev)
  then have "dropWhile is_ws (rev s) = rev s" by (intro dropWhile_fixed)
  with 1 show ?thesis by (simp add: trim_def)
qed

lemma trim_replicate: "\<not> is_ws c \<Longrightarrow> trim (replicate n c) = replicate n c"
proof (cases "n = 0")
  case True
  then show ?thesis by (simp add: trim_def)
next
  case False
  assume "\<not> is_ws c"
  with False show ?thesis by (intro trim_fixed) simp_all
qed

lemma map_input_strings:
  "list_all (\<lambda>s. trim s \<noteq> []) ss \<Longrightarrow> map_input (map JStr ss) i = Inr (map trim ss)"
  by (induction ss arbitrary: i) auto

lemma map_input_trimmed:
  "map_input xs i = Inr ts \<Longrightarrow> list_all (\<lambda>t. trim t = t \<and> t \<noteq> []) ts"
proof (induction xs arbitrary: i ts)
  case Nil
  then show ?case by simp
next
  case (Cons x xs)
  then show ?case
    by (auto simp: trim_idem split: jsval.splits if_splits sum.splits)
qed

lemma parse_inputs_trimmed:
  "parse_inputs prompt input = Inr ts \<Longrightarrow> list_all (\<lambda>t. trim t = t \<and> t \<noteq> []) ts"
  unfolding parse_inputs_def
  by (auto simp: trim_idem split: if_splits jsval.splits dest: map_input_trimmed)

lemma check_lengths_ok:
  "check_lengths ts i = Inr u \<longleftrightarrow> list_all (\<lambda>t. length t \<le> maxTextLength) ts"
  by (induction ts arbitrary: i) auto

lemma check_lengths_first:
  "k < length ts \<Longrightarrow> maxTextLength < length (ts ! k) \<Longrightarrow>
   \<forall>j < k. length (ts ! j) \<le> maxTextLength \<Longrightarrow>
   check_lengths ts i
     = Inl (''Input text at index '' @ show_nat (i + k) @ '' is too long. Maximum length: ''
            @ show_nat maxTextLength @ '' characters'')"
proof (induction ts arbitrary: i k)
  case Nil
  then show ?case by simp
next
  case (Cons t ts)
  show ?case
  proof (cases k)
    case 0
    with Cons.prems show ?thesis by simp
  next
    case (Suc k')
    with Cons.prems have t: "length t \<le> maxTextLength" by fastforce
    from Cons.prems Suc have a: "k' < length ts" "maxTextLength < length (ts ! k')" by simp_all
    have b: "\<forall>j < k'. length (ts ! j) \<le> maxTextLength"
    proof (intro allI impI)
      fix j assume "j < k'"
      then have "Suc j < k" using Suc by simp
      with Cons.prems(3) have "length ((t # ts) ! Suc j) \<le> maxTextLength" by blast
      then show "length (ts ! j) \<le> maxTextLength" by simp
    qed
    from Cons.IH [OF a b, of "Suc i"] t Suc show ?thesis by simp
  qed
qed

lemma array_request_parse:
  assumes "array_request e body config ss"
  shows "validateEmbeddingRequest e body =
           (case (if length ss = 0 then Inl ''Input array cannot be empty''
                  else map_input (map JStr ss) 0) of
              Inl err \<Rightarrow> Inl err
            | Inr texts \<Rightarrow>
                if length texts > maxTexts
                then Inl (''Too many input texts. Maximum allowed: '' @ show_nat maxTexts)
                else (case check_lengths texts 0 of
                        Inl err \<Rightarrow> Inl err
                      | Inr u \<Rightarrow>
                          Inr \<lparr>modelConfig = config, inputTexts = texts,
                               isSingleText =
                                 (length texts = 1 \<and> js_get body ''prompt'' \<noteq> Inr JUndefined)\<rparr>))"
  using assms unfolding array_request_def validateEmbeddingRequest_def parse_inputs_def
  by (auto split: sum.splits)

lemma accepted_limits:
  assumes "validateEmbeddingRequest e body = Inr req"
  shows "1 \<le> length (inputTexts req) \<and> length (inputTexts req) \<le> 100 \<and>
         list_all (\<lambda>t. trim t = t \<and> t \<noteq> [] \<and> length t \<le> 10000) (inputTexts req)"
proof -
  from validate_accepted [OF assms] obtain prompt input where
    p: "parse_inputs prompt input = Inr (inputTexts req)"
    and n: "length (inputTexts req) \<le> maxTexts"
    and c: "check_lengths (inputTexts req) 0 = Inr ()" by blast
  from parse_inputs_nonempty [OF p] have "1 \<le> length (inputTexts req)"
    by (cases "inputTexts req") auto
  moreover from c have "list_all (\<lambda>t. length t \<le> maxTextLength) (inputTexts req)"
    by (simp add: check_lengths_ok)
  moreover note parse_inputs_trimmed [OF p] n
  ultimately show ?thesis
    by (auto simp: list_all_iff maxTexts_def maxTextLength_def)
qed

lemma too_many_rejected:
  assumes a: "array_request e body config ss"
    and ne: "list_all (\<lambda>s. trim s \<noteq> []) ss" and n: "100 < length ss"
  shows "validateEmbeddingRequest e body = Inl ''Too many input texts. Maximum allowed: 100''"
proof -
  from n have "ss \<noteq> []" by auto
  with ne n show ?thesis
    by (simp add: array_request_parse [OF a] map_input_strings maxTexts_def show_nat_100)
qed

lemma too_long_rejected:
  assumes a: "array_request e body config ss"
    and ne: "list_all (\<lambda>s. trim s \<noteq> []) ss" and n: "length ss \<le> 100"
    and k: "k < length ss" "10000 < length (trim (ss ! k))"
    and first: "\<forall>j < k. length (trim (ss ! j)) \<le> 10000"
  shows "validateEmbeddingRequest e body
           = Inl (''Input text at index '' @ show_nat k
                  @ '' is too long. Maximum length: 10000 characters'')"
proof -
  have "check_lengths (map trim ss) 0
          = Inl (''Input text at index '' @ show_nat (0 + k) @ '' is too long. Maximum length: ''
                 @ show_nat maxTextLength @ '' characters'')"
    using k first by (intro check_lengths_first) (simp_all add: maxTextLength_def)
  with ne n k show ?thesis
    by (auto simp: array_request_parse [OF a] map_input_strings maxTexts_def maxTextLength_def
        show_nat_10000)
qed

lemma within_limits_accepted:
  assumes a: "array_request e body config ss"
    and n: "ss \<noteq> []" "length ss \<le> 100"
    and ok: "list_all (\<lambda>s. trim s \<noteq> [] \<and> length (trim s) \<le> 10000) ss"
  shows "\<exists>req. validateEmbeddingRequest e body = Inr req \<and> modelConfig req = config \<and>
               inputTexts req = map trim ss"
proof -
  from ok have ne: "list_all (\<lambda>s. trim s \<noteq> []) ss" by (simp add: list_all_iff)
  from ok have "list_all (\<lambda>t. length t \<le> maxTextLength) (map trim ss)"
    by (simp add: list_all_iff maxTextLength_def)
  then have "check_lengths (map trim ss) 0 = Inr ()" by (simp add: check_lengths_ok)
  with ne n show ?thesis
    by (simp add: array_request_parse [OF a] map_input_strings maxTexts_def)
qed

text \<open>
  C7. For a body with a valid model, no truthy \<^verbatim>\<open>prompt\<close> and an \<^verbatim>\<open>input\<close> array of
  strings \<open>ss\<close> (\<open>array_request\<close>), \<^verbatim>\<open>validateEmbeddingRequest\<close>
  \<^item> rejects the empty array with a message containing \<^verbatim>\<open>cannot be empty\<close>;
  \<^item> rejects more than 100 texts with a message containing \<^verbatim>\<open>Maximum allowed\<close>;
  \<^item> rejects a batch of at most 100 texts whose first text longer than 10,000 characters
    after trimming is at index \<open>k\<close>, with the message that names the index \<open>k\<close>;
  \<^item> accepts 100 texts of trimmed length exactly 10,000, and any batch within the limits,
    and returns the trimmed texts in order.
  Whatever the shape of the body, the texts of an accepted request are between 1 and 100,
  each is trimmed, non-empty and at most 10,000 characters long.
\<close>

theorem C7_embedding_input_limits:
  "(array_request e body config [] \<longrightarrow>
      validateEmbeddingRequest e body = Inl ''Input array cannot be empty'' \<and>
      js_includes ''Input array cannot be empty'' ''cannot be empty'')
   \<and> (array_request e body config ss \<and> list_all (\<lambda>s. trim s \<noteq> []) ss \<and> 100 < length ss \<longrightarrow>
      validateEmbeddingRequest e body = Inl ''Too many input texts. Maximum allowed: 100'' \<and>
      js_includes ''Too many input texts. Maximum allowed: 100'' ''Maximum allowed'')
   \<and> (array_request e body config ss \<and> list_all (\<lambda>s. trim s \<noteq> []) ss \<and> length ss \<le> 100 \<and>
      k < length ss \<and> 10000 < length (trim (ss ! k)) \<and>
      (\<forall>j < k. length (trim (ss ! j)) \<le> 10000) \<longrightarrow>
      validateEmbeddingRequest e body
        = Inl (''Input text at index '' @ show_nat k
               @ '' is too long. Maximum length: 10000 characters''))
   \<and> (array_request e body config ss \<and> length ss = 100 \<and>
      list_all (\<lambda>s. length (trim s) = 10000) ss \<longrightarrow>
      (\<exists>req. validateEmbeddingRequest e body = Inr req \<and> modelConfig req = config \<and>
             inputTexts req = map trim ss))
   \<and> (array_request e body config ss \<and> ss \<noteq> [] \<and> length ss \<le> 100 \<and>
      list_all (\<lambda>s. trim s \<noteq> [] \<and> length (trim s) \<le> 10000) ss \<longrightarrow>
      (\<exists>req. validateEmbeddingRequest e body = Inr req \<and> modelConfig req = config \<and>
             inputTexts req = map trim ss))
   \<and> (validateEmbeddingRequest e body = Inr req \<longrightarrow>
      1 \<le> length (inputTexts req) \<and> length (inputTexts req) \<le> 100 \<and>
      list_all (\<lambda>t. trim t = t \<and> t \<noteq> [] \<and> length t \<le> 10000) (inputTexts req))"
proof (intro conjI impI)
  assume a: "array_request e body config []"
  show "validateEmbeddingRequest e body = Inl ''Input array cannot be empty''"
    by (simp add: array_request_parse [OF a])
next
  show "js_includes ''Input array cannot be empty'' ''cannot be empty''"
    using includes_end [of "''Input array ''" "''cannot be empty''"] by simp
next
  assume "array_request e body config ss \<and> list_all (\<lambda>s. trim s \<noteq> []) ss \<and> 100 < length ss"
  then show "validateEmbeddingRequest e body = Inl ''Too many input texts. Maximum allowed: 100''"
    using too_many_rejected by blast
next
  show "js_includes ''Too many input texts. Maximum allowed: 100'' ''Maximum allowed''"
    using includes_mid [of "''Too many input texts. ''" "''Maximum allowed''" "'': 100''"]
    by simp
next
  assume "array_request e body config ss \<and> list_all (\<lambda>s. trim s \<noteq> []) ss \<and> length ss \<le> 100 \<and>
      k < length ss \<and> 10000 < length (trim (ss ! k)) \<and>
      (\<forall>j < k. length (trim (ss ! j)) \<le> 10000)"
  then show "validateEmbeddingRequest e body
        = Inl (''Input text at index '' @ show_nat k
               @ '' is too long. Maximum length: 10000 characters'')"
    using too_long_rejected by blast
next
  assume h: "array_request e body config ss \<and> length ss = 100 \<and>
      list_all (\<lambda>s. length (trim s) = 10000) ss"
  then have "ss \<noteq> []" "length ss \<le> 100"
    "list_all (\<lambda>s. trim s \<noteq> [] \<and> length (trim s) \<le> 10000) ss"
    by (auto simp: list_all_iff)
  with h show "\<exists>req. validateEmbeddingRequest e body = Inr req \<and> modelConfig req = config \<and>
             inputTexts req = map trim ss"
    using within_limits_accepted by blast
next
  assume "array_request e body config ss \<and> ss \<noteq> [] \<and> length ss \<le> 100 \<and>
      list_all (\<lambda>s. trim s \<noteq> [] \<and> length (trim s) \<le> 10000) ss"
  then show "\<exists>req. validateEmbeddingRequest e body = Inr req \<and> modelConfig req = config \<and>
             inputTexts req = map trim ss"
    using within_limits_accepted by blast
next
  assume "validateEmbeddingRequest e body = Inr req"
  then show "1 \<le> length (inputTexts req)" "length (inputTexts req) \<le> 100"
    "list_all (\<lambda>t. trim t = t \<and> t \<noteq> [] \<and> length t \<le> 10000) (inputTexts req)"
    using accepted_limits by blast+
qed

lemma array_body_request: "array_request example_env (array_body ss) google_embedding ss"
  by (simp add: array_request_def array_body_def example_env_def validateEmbeddingModel_def
      google_embedding_def)

lemma not_ws_a: "\<not> is_ws CHR ''a''"
  by (simp add: is_ws_def)

theorem C7_embedding_input_limits_witness:
  "validateEmbeddingRequest example_env (array_body []) = Inl ''Input array cannot be empty''
   \<and> 100 < length (replicate 101 ''a'')
   \<and> validateEmbeddingRequest example_env (array_body (replicate 101 ''a''))
       = Inl ''Too many input texts. Maximum allowed: 100''
   \<and> 10000 < length (trim ([''ok'', replicate 10001 CHR ''a''] ! 1))
   \<and> validateEmbeddingRequest example_env (array_body [''ok'', replicate 10001 CHR ''a''])
       = Inl ''Input text at index 1 is too long. Maximum length: 10000 characters''
   \<and> (\<exists>req. validateEmbeddingRequest example_env
                (array_body (replicate 100 (replicate 10000 CHR ''a''))) = Inr req \<and>
             modelConfig req = google_embedding \<and>
             inputTexts req = replicate 100 (replicate 10000 CHR ''a''))
   \<and> (\<exists>req. validateEmbeddingRequest example_env (array_body [''Text 1'', '' Text 2 '']) = Inr req \<and>
             inputTexts req = [''Text 1'', ''Text 2''])
   \<and> list_all (\<lambda>t. trim t = t \<and> t \<noteq> [] \<and> length t \<le> 10000) [''Text 1'', ''Text 2'']"
proof -
  let ?long = "replicate 10001 CHR ''a''"
  let ?full = "replicate 100 (replicate 10000 CHR ''a'')"
  have t_ok: "trim ''ok'' = ''ok''" "trim ''a'' = ''a''" "trim ''Text 1'' = ''Text 1''"
    "trim '' Text 2 '' = ''Text 2''"
    by (simp_all add: trim_def is_ws_def)
  have t_long: "trim ?long = ?long" by (rule trim_replicate [OF not_ws_a])
  have t_full: "trim (replicate 10000 CHR ''a'') = replicate 10000 CHR ''a''"
    by (rule trim_replicate [OF not_ws_a])
  have one: "show_nat (Suc 0) = ''1''" by (simp add: show_nat_digit digit_def)
  have c1: "validateEmbeddingRequest example_env (array_body []) = Inl ''Input array cannot be empty''"
    using C7_embedding_input_limits
            [where e = example_env and body = "array_body []" and config = google_embedding]
          array_body_request [of "[]"]
    by blast
  have h2: "list_all (\<lambda>s. trim s \<noteq> []) (replicate 101 ''a'')" "100 < length (replicate 101 ''a'')"
    by (simp_all add: list_all_iff t_ok)
  have c2: "validateEmbeddingRequest example_env (array_body (replicate 101 ''a''))
              = Inl ''Too many input texts. Maximum allowed: 100''"
    using C7_embedding_input_limits
            [where e = example_env and body = "array_body (replicate 101 ''a'')"
               and config = google_embedding and ss = "replicate 101 ''a''"]
          array_body_request [of "replicate 101 ''a''"] h2
    by blast
  have h3: "list_all (\<lambda>s. trim s \<noteq> []) [''ok'', ?long]" "length [''ok'', ?long] \<le> 100"
    "1 < length [''ok'', ?long]" "10000 < length (trim ([''ok'', ?long] ! 1))"
    "\<forall>j < 1. length (trim ([''ok'', ?long] ! j)) \<le> 10000"
    by (simp_all add: t_ok t_long)
  have c3: "validateEmbeddingRequest example_env (array_body [''ok'', ?long])
              = Inl (''Input text at index '' @ show_nat 1
                     @ '' is too long. Maximum length: 10000 characters'')"
    using C7_embedding_input_limits
            [where e = example_env and body = "array_body [''ok'', ?long]"
               and config = google_embedding and ss = "[''ok'', ?long]" and k = 1]
          array_body_request [of "[''ok'', ?long]"] h3
    by blast
  have h4: "length ?full = 100" "list_all (\<lambda>s. length (trim s) = 10000) ?full"
    by (simp_all add: list_all_iff t_full)
  have c4: "\<exists>req. validateEmbeddingRequest example_env (array_body ?full) = Inr req \<and>
                  modelConfig req = google_embedding \<and> inputTexts req = map trim ?full"
    using C7_embedding_input_limits
            [where e = example_env and body = "array_body ?full"
               and config = google_embedding and ss = ?full]
          array_body_request [of ?full] h4
    by blast
  have h5: "[''Text 1'', '' Text 2 ''] \<noteq> []" "length [''Text 1'', '' Text 2 ''] \<le> 100"
    "list_all (\<lambda>s. trim s \<noteq> [] \<and> length (trim s) \<le> 10000) [''Text 1'', '' Text 2 '']"
    by (simp_all add: t_ok)
  have c5: "\<exists>req. validateEmbeddingRequest example_env (array_body [''Text 1'', '' Text 2 ''])
                    = Inr req \<and>
                  modelConfig req = google_embedding \<and>
                  inputTexts req = map trim [''Text 1'', '' Text 2 '']"
    using C7_embedding_input_limits
            [where e = example_env and body = "array_body [''Text 1'', '' Text 2 '']"
               and config = google_embedding and ss = "[''Text 1'', '' Text 2 '']"]
          array_body_request [of "[''Text 1'', '' Text 2 '']"] h5
    by blast
  have c6: "list_all (\<lambda>t. trim t = t \<and> t \<noteq> [] \<and> length t \<le> 10000)
              (inputTexts \<lparr>modelConfig = google_embedding, inputTexts = [''Text 1'', ''Text 2''],
                           isSingleText = False\<rparr>)"
    using C7_embedding_input_limits
            [where e = example_env and body = batch_body
               and req = "\<lparr>modelConfig = google_embedding, inputTexts = [''Text 1'', ''Text 2''],
                           isSingleText = False\<rparr>"]
          batch_body_accepted
    by blast
  from c5 have c5': "\<exists>req. validateEmbeddingRequest example_env
                              (array_body [''Text 1'', '' Text 2 '']) = Inr req \<and>
                            inputTexts req = [''Text 1'', ''Text 2'']"
    by (auto simp: t_ok)
  from c1 c2 c3 c4 c5' c6 h2 h3 show ?thesis
    by (simp add: one t_ok t_full t_long)
qed

subsection \<open>The single-text flag\<close>

lemma isSingleText_from_prompt:
  assumes "validateEmbeddingRequest e body = Inr req" and "js_get body ''prompt'' = Inr p"
  shows "(truthy p \<longrightarrow> isSingleText req) \<and> (p = JUndefined \<longrightarrow> \<not> isSingleText req)"
proof -
  from validate_accepted [OF assms(1)] assms(2) obtain input where
    parse: "parse_inputs p input = Inr (inputTexts req)"
    and single: "isSingleText req = (length (inputTexts req) = 1 \<and> p \<noteq> JUndefined)"
    by auto
  from parse [symmetric] have "truthy p \<Longrightarrow> length (inputTexts req) = 1"
    by (auto simp: parse_inputs_def split: jsval.splits if_splits)
  with single show ?thesis by auto
qed

text \<open>
  C2. The flag \<^verbatim>\<open>isSingleText\<close> is meant to say that the text came through \<^verbatim>\<open>prompt\<close>.
  The code takes the branch of \<^verbatim>\<open>prompt\<close> when \<^verbatim>\<open>body.prompt\<close> is truthy, but computes the
  flag from \<^verbatim>\<open>body.prompt !== undefined\<close>. For the body
  \<^verbatim>\<open>{model: 'text-embedding-004', prompt: null, input: ['Text 1']}\<close> the text is read from
  \<^verbatim>\<open>input\<close> (a one-element array), yet the flag is true and the response uses the
  \<^verbatim>\<open>embedding\<close> key.
\<close>

theorem C2_null_prompt_marks_input_as_single:
  "validateEmbeddingRequest example_env null_prompt_body
     = Inr \<lparr>modelConfig = google_embedding, inputTexts = [''Text 1''], isSingleText = True\<rparr> \<and>
   parse_inputs JNull (JArr [JStr ''Text 1'']) = map_input [JStr ''Text 1''] 0 \<and>
   post_api_embeddings example_env example_upstream ''2025-01-01T00:00:00.000Z''
       null_prompt_body []
     = ([the_call google_embedding ''Text 1''],
        [WriteHead 200 ''application/json'',
         End (Some (JObj [(''embedding'', JArr [JNum ''0.1'', JNum ''0.2'']),
                          (''model'', JStr ''text-embedding-004''),
                          (''created_at'', JStr ''2025-01-01T00:00:00.000Z'')]))])"
proof -
  have v: "validateEmbeddingRequest example_env null_prompt_body
     = Inr \<lparr>modelConfig = google_embedding, inputTexts = [''Text 1''], isSingleText = True\<rparr>"
    by (simp add: validateEmbeddingRequest_def null_prompt_body_def example_env_def
        validateEmbeddingModel_def parse_inputs_def trim_def is_ws_def maxTexts_def
        maxTextLength_def google_embedding_def)
  have g: "generateEmbeddings example_env example_upstream google_embedding [''Text 1'']
             = ([the_call google_embedding ''Text 1''],
                Inr \<lparr>embeddings = [JArr [JNum ''0.1'', JNum ''0.2'']],
                     res_model = ''text-embedding-004'', dimensions = 2\<rparr>)"
    by (simp add: generateEmbeddings_def google_embedding_def example_env_def embed_one_def
        example_upstream_def the_call_def vector_reply_def)
  have m: "js_get null_prompt_body ''model'' = Inr (JStr ''text-embedding-004'')"
    by (simp add: null_prompt_body_def)
  have p: "post_api_embeddings example_env example_upstream ''2025-01-01T00:00:00.000Z''
       null_prompt_body []
     = ([the_call google_embedding ''Text 1''],
        [WriteHead 200 ''application/json'',
         End (Some (JObj [(''embedding'', JArr [JNum ''0.1'', JNum ''0.2'']),
                          (''model'', JStr ''text-embedding-004''),
                          (''created_at'', JStr ''2025-01-01T00:00:00.000Z'')]))])"
    by (simp add: post_api_embeddings_def v g m formatEmbeddingResponse_def
        validateEmbeddingResponse_def check_vectors_def sendJSON_def)
  have i: "parse_inputs JNull (JArr [JStr ''Text 1'']) = map_input [JStr ''Text 1''] 0"
    by (simp add: parse_inputs_def)
  from v i p show ?thesis by simp
qed

subsection \<open>Preparing messages\<close>

lemma trim_Nil: "trim [] = []"
  by (simp add: trim_def)

lemma keep_message_plain: "plain_message msg \<Longrightarrow> keep_message msg = Inr (survives msg)"
  by (auto simp: plain_message_def keep_message_def survives_def isString_iff trim_Nil
      split: sum.splits jsval.splits)

lemma filter_messages_plain:
  "list_all plain_message ms \<Longrightarrow> filter_messages ms = Inr (filter survives ms)"
  by (induction ms) (simp_all add: keep_message_plain)

lemma map_message_survivor: "survives msg \<Longrightarrow> map_message msg = Inr (forwarded msg)"
  by (cases msg)
     (auto simp: survives_def map_message_def forwarded_def split: sum.splits jsval.splits)

lemma map_messages_survivors:
  "list_all survives ms \<Longrightarrow> map_messages ms = Inr (map forwarded ms)"
  by (induction ms) (auto simp: map_message_survivor)

text \<open>
  C10. For a list of messages whose \<^verbatim>\<open>content\<close> is a string or is missing (or another
  falsy value), \<^verbatim>\<open>prepareMessages\<close> returns, in order, the messages whose content is a
  string that is non-empty after trimming (\<open>survives\<close>), each with the role
  \<^verbatim>\<open>assistant\<close> if its role is exactly \<^verbatim>\<open>assistant\<close> and \<^verbatim>\<open>user\<close> otherwise, and with its
  content trimmed (\<open>forwarded\<close>).
\<close>

theorem C10_prepareMessages_filters_and_maps_roles:
  assumes "list_all plain_message ms"
  shows "prepareMessages (JArr ms) = Inr (map forwarded (filter survives ms))"
proof -
  have "list_all survives (filter survives ms)" by (simp add: list_all_iff)
  with assms show ?thesis
    by (simp add: prepareMessages_def filter_messages_plain map_messages_survivors)
qed

theorem C10_prepareMessages_filters_and_maps_roles_witness:
  "list_all plain_message example_messages \<and>
   prepareMessages (JArr example_messages)
     = Inr [\<lparr>role = ''user'', content = ''You are terse.''\<rparr>,
            \<lparr>role = ''assistant'', content = ''Hi''\<rparr>,
            \<lparr>role = ''user'', content = ''42''\<rparr>]"
proof -
  have h: "list_all plain_message example_messages"
    by (simp add: example_messages_def plain_message_def)
  have "map forwarded (filter survives example_messages)
          = [\<lparr>role = ''user'', content = ''You are terse.''\<rparr>,
             \<lparr>role = ''assistant'', content = ''Hi''\<rparr>,
             \<lparr>role = ''user'', content = ''42''\<rparr>]"
    by (simp add: example_messages_def survives_def forwarded_def trim_def is_ws_def)
  with C10_prepareMessages_filters_and_maps_roles [OF h] h show ?thesis by simp
qed

subsection \<open>Options of a generation call\<close>

lemma example_messages_prepared:
  "prepareMessages (JArr example_messages)
     = Inr [\<lparr>role = ''user'', content = ''You are terse.''\<rparr>,
            \<lparr>role = ''assistant'', content = ''Hi''\<rparr>,
            \<lparr>role = ''user'', content = ''42''\<rparr>]"
proof -
  have h: "list_all plain_message example_messages"
    by (simp add: example_messages_def plain_message_def)
  have "map forwarded (filter survives example_messages)
          = [\<lparr>role = ''user'', content = ''You are terse.''\<rparr>,
             \<lparr>role = ''assistant'', content = ''Hi''\<rparr>,
             \<lparr>role = ''user'', content = ''42''\<rparr>]"
    by (simp add: example_messages_def survives_def forwarded_def trim_def is_ws_def)
  with h show ?thesis
    by (simp add: prepareMessages_def filter_messages_plain map_messages_survivors list_all_iff)
qed




subsection \<open>Status of a validation failure\<close>








subsection \<open>Streams end with one terminal object\<close>

lemma ndjson_objects_append:
  "ndjson_objects (xs @ ys) = ndjson_objects xs @ ndjson_objects ys"
  by (simp add: ndjson_objects_def)

lemma ndjson_objects_writes: "ndjson_objects (map Write vs) = vs"
  by (induction vs) (simp_all add: ndjson_objects_def)

lemma ndjson_objects_simps:
  "ndjson_objects [] = []"
  "ndjson_objects (Write v # rest) = v # ndjson_objects rest"
  "ndjson_objects (WriteHead st ct # rest) = ndjson_objects rest"
  "ndjson_objects (End b # rest) = ndjson_objects rest"
  by (simp_all add: ndjson_objects_def)

lemma js_get_set_prop:
  "js_get (set_prop (JObj fs) k v) k' = (if k' = k then Inr v else js_get (JObj fs) k')"
  by (simp add: update_conv')

lemma delta_chunk_not_done: "not_done (delta_chunk m t key d)"
  by (simp add: not_done_def delta_chunk_def set_content_def)

lemma error_chunk_facts:
  "is_done (error_chunk m t err)"
  "js_get (error_chunk m t err) ''error'' = Inr (JStr err)"
  by (simp_all add: is_done_def error_chunk_def)

lemma final_chunk_facts:
  "is_done (final_chunk m t key r)"
  "js_get (final_chunk m t key r) ''error'' = Inr JUndefined"
  "key = ''message'' \<or> key = ''response'' \<Longrightarrow> chunk_content key (final_chunk m t key r) = Inr (JStr [])"
  by (auto simp: is_done_def final_chunk_def set_content_def add_reasoning_def chunk_content_def)

lemma stream_tokens_shape:
  "\<exists>chunks. stream_tokens now m key deltas pre = pre @ map Write chunks \<and>
            length chunks = length deltas \<and> list_all not_done chunks"
proof (induction deltas arbitrary: pre)
  case Nil
  then show ?case by simp
next
  case (Cons d ds)
  let ?c = "delta_chunk m (now (length pre)) key d"
  from Cons [of "pre @ [Write ?c]"] obtain chunks where
    c: "stream_tokens now m key ds (pre @ [Write ?c]) = (pre @ [Write ?c]) @ map Write chunks"
       "length chunks = length ds" "list_all not_done chunks"
    by blast
  then have "stream_tokens now m key (d # ds) pre = pre @ map Write (?c # chunks)"
    "length (?c # chunks) = length (d # ds)" "list_all not_done (?c # chunks)"
    by (simp_all add: delta_chunk_not_done)
  then show ?case by blast
qed

lemma stream_shapeI:
  assumes "response = ndjson_headers # map Write chunks @ [Write final, End None]"
    and "list_all not_done chunks" and "is_done final"
  shows "stream_shape response \<and> ndjson_objects response = chunks @ [final]"
proof -
  have o: "ndjson_objects response = chunks @ [final]"
    unfolding assms(1) ndjson_headers_def
    by (simp add: ndjson_objects_simps ndjson_objects_append ndjson_objects_writes)
  with assms show ?thesis by (simp add: stream_shape_def)
qed

lemma stream_body_outcomes:
  assumes call: "stream_call config vm options = Inr call"
  shows "streamText s call = CallThrows err \<Longrightarrow>
           snd (stream_body s now [ndjson_headers] config vm options key)
             = ndjson_headers # map Write [] @ [Write (error_chunk (model config) (now 1) err), End None]"
    and "streamText s call = Streams deltas (Some err) r \<Longrightarrow>
           \<exists>chunks. length chunks = length deltas \<and> list_all not_done chunks \<and>
             snd (stream_body s now [ndjson_headers] config vm options key)
               = ndjson_headers # map Write chunks
                   @ [Write (error_chunk (model config) (now (Suc (length deltas))) err), End None]"
    and "streamText s call = Streams deltas None r \<Longrightarrow>
           \<exists>chunks. length chunks = length deltas \<and> list_all not_done chunks \<and>
             snd (stream_body s now [ndjson_headers] config vm options key)
               = ndjson_headers # map Write chunks
                   @ [Write (final_chunk (model config) (now (Suc (length deltas))) key r), End None]"
proof -
  show "streamText s call = CallThrows err \<Longrightarrow>
           snd (stream_body s now [ndjson_headers] config vm options key)
             = ndjson_headers # map Write [] @ [Write (error_chunk (model config) (now 1) err), End None]"
    using call by (simp add: stream_body_def stream_failed_def)
  from stream_tokens_shape [of now "model config" key deltas "[ndjson_headers]"]
  obtain chunks where
    c: "stream_tokens now (model config) key deltas [ndjson_headers]
          = [ndjson_headers] @ map Write chunks"
       "length chunks = length deltas" "list_all not_done chunks"
    by blast
  show "streamText s call = Streams deltas (Some err) r \<Longrightarrow>
           \<exists>chunks. length chunks = length deltas \<and> list_all not_done chunks \<and>
             snd (stream_body s now [ndjson_headers] config vm options key)
               = ndjson_headers # map Write chunks
                   @ [Write (error_chunk (model config) (now (Suc (length deltas))) err), End None]"
    using call c by (auto simp: stream_body_def stream_failed_def)
  show "streamText s call = Streams deltas None r \<Longrightarrow>
           \<exists>chunks. length chunks = length deltas \<and> list_all not_done chunks \<and>
             snd (stream_body s now [ndjson_headers] config vm options key)
               = ndjson_headers # map Write chunks
                   @ [Write (final_chunk (model config) (now (Suc (length deltas))) key r), End None]"
    using call c by (auto simp: stream_body_def)
qed

lemma stream_body_shape: "stream_shape (snd (stream_body s now [ndjson_headers] config vm options key))"
proof (cases "stream_call config vm options")
  case (Inl err)
  then have "snd (stream_body s now [ndjson_headers] config vm options key)
               = ndjson_headers # map Write []
                   @ [Write (error_chunk (model config) (now 1) err), End None]"
    by (simp add: stream_body_def stream_failed_def)
  from stream_shapeI [OF this] show ?thesis by (simp add: error_chunk_facts)
next
  case (Inr call)
  show ?thesis
  proof (cases "streamText s call")
    case (CallThrows err)
    from stream_shapeI [OF stream_body_outcomes(1) [OF Inr CallThrows]] show ?thesis
      by (simp add: error_chunk_facts)
  next
    case (Streams deltas failure r)
    show ?thesis
    proof (cases failure)
      case None
      with stream_body_outcomes(3) [OF Inr] Streams obtain chunks where
        "list_all not_done chunks"
        "snd (stream_body s now [ndjson_headers] config vm options key)
               = ndjson_headers # map Write chunks
                   @ [Write (final_chunk (model config) (now (Suc (length deltas))) key r), End None]"
        by blast
      from stream_shapeI [OF this(2) this(1)] show ?thesis by (simp add: final_chunk_facts)
    next
      case (Some err)
      with stream_body_outcomes(2) [OF Inr] Streams obtain chunks where
        "list_all not_done chunks"
        "snd (stream_body s now [ndjson_headers] config vm options key)
               = ndjson_headers # map Write chunks
                   @ [Write (error_chunk (model config) (now (Suc (length deltas))) err), End None]"
        by blast
      from stream_shapeI [OF this(2) this(1)] show ?thesis by (simp add: error_chunk_facts)
    qed
  qed
qed

lemma streamResponse_started:
  assumes "providers e (provider config)" and "prepareMessages msgs = Inr vm" and "vm \<noteq> []"
  shows "streamResponse e s now [] config msgs options key
           = (fst (stream_body s now [ndjson_headers] config vm (or_empty_object options) key),
              Inr (),
              snd (stream_body s now [ndjson_headers] config vm (or_empty_object options) key))"
  using assms by (simp add: streamResponse_def Let_def split: prod.splits)

lemma streamResponse_cases:
  assumes "streamResponse e s now [] config msgs options key = (calls, r, out)"
  shows "(out = [] \<and> (\<exists>err. r = Inl err)) \<or> (r = Inr () \<and> stream_shape out)"
proof (cases "providers e (provider config)")
  case False
  with assms show ?thesis by (auto simp: streamResponse_def Let_def)
next
  case True
  show ?thesis
  proof (cases "prepareMessages msgs")
    case (Inl err)
    with assms True show ?thesis by (auto simp: streamResponse_def Let_def)
  next
    case (Inr vm)
    show ?thesis
    proof (cases "vm = []")
      case True
      with assms Inr \<open>providers e (provider config)\<close> show ?thesis
        by (auto simp: streamResponse_def Let_def)
    next
      case False
      from streamResponse_started [OF True Inr False, of s now options key] assms
      have "r = Inr ()"
        "out = snd (stream_body s now [ndjson_headers] config vm (or_empty_object options) key)"
        by simp_all
      with stream_body_shape show ?thesis by simp
    qed
  qed
qed

lemma attempt_cases:
  assumes "generation_attempt e s now body ex key [] = (calls, r, out)"
  shows "(out = [] \<and> (\<exists>err. r = Inl err)) \<or> (r = Inr () \<and> (\<exists>v. out = sendJSON [] v 200))
         \<or> (r = Inr () \<and> stream_shape out)"
proof (cases "destructure body")
  case (Inl err)
  with assms show ?thesis by (auto simp: generation_attempt_def)
next
  case d: (Inr triple)
  obtain m options stream where t: "triple = (m, options, stream)" by (cases triple) auto
  show ?thesis
  proof (cases "validateChatModel e m")
    case (Inl err)
    with assms d t show ?thesis by (auto simp: generation_attempt_def)
  next
    case c: (Inr config)
    show ?thesis
    proof (cases "ex body")
      case (Inl err)
      with assms d t c show ?thesis by (auto simp: generation_attempt_def)
    next
      case x: (Inr extracted)
      show ?thesis
      proof (cases "truthy stream")
        case True
        with assms d t c x
        have "streamResponse e s now [] config (js_or extracted (JArr [])) options key
                = (calls, r, out)"
          by (simp add: generation_attempt_def Let_def)
        from streamResponse_cases [OF this] show ?thesis by blast
      next
        case False
        obtain calls' g where
          g: "generateResponse e s config (js_or extracted (JArr [])) options = (calls', g)"
          by (cases "generateResponse e s config (js_or extracted (JArr [])) options") auto
        with assms d t c x False show ?thesis
          by (cases g) (auto simp: generation_attempt_def Let_def)
      qed
    qed
  qed
qed

lemma handler_cases:
  assumes "handleModelGenerationRequest e s now body ex key [] = (calls, response)"
  shows "(\<exists>v status. response = sendJSON [] v status) \<or> stream_shape response"
proof -
  obtain calls' r out where
    a: "generation_attempt e s now body ex key [] = (calls', r, out)"
    by (cases "generation_attempt e s now body ex key []") auto
  from attempt_cases [OF a] show ?thesis
  proof (elim disjE conjE exE)
    fix err assume "out = []" "r = Inl err"
    with a assms show ?thesis
      by (auto simp: handleModelGenerationRequest_def headersSent_def)
  next
    fix v assume o: "r = Inr ()" "out = sendJSON [] v 200"
    with a assms have "response = out"
      by (auto simp: handleModelGenerationRequest_def)
    with o show ?thesis by blast
  next
    assume "r = Inr ()" "stream_shape out"
    with a assms show ?thesis by (auto simp: handleModelGenerationRequest_def)
  qed
qed

lemma handler_streams:
  assumes "destructure body = Inr (m, options, stream)" and "truthy stream"
    and "validateChatModel e m = Inr config" and "ex body = Inr extracted"
    and "prepareMessages (js_or extracted (JArr [])) = Inr vm" and "vm \<noteq> []"
  shows "snd (handleModelGenerationRequest e s now body ex key [])
           = snd (stream_body s now [ndjson_headers] config vm options key)"
proof -
  from assms(3) have p: "providers e (provider config)"
    by (auto simp: validateChatModel_def split: option.splits if_splits)
  from assms(1) have o: "or_empty_object options = options"
    by (auto simp: destructure_def or_empty_object_def split: if_splits sum.splits)
  from streamResponse_started [OF p assms(5) assms(6), of s now options key] assms o
  show ?thesis
    by (simp add: handleModelGenerationRequest_def generation_attempt_def Let_def)
qed

text \<open>
  C3. Let a chat or generate request be handled from a fresh response. If the NDJSON
  headers were written, the response is those headers (status 200, written once), then
  one line per object, then the end of the response: there is at least one object, the last
  one has \<^verbatim>\<open>done: true\<close> and every object before it has \<^verbatim>\<open>done: false\<close>
  (\<open>stream_shape\<close>); no JSON error response is sent. For a streaming request with a
  configured model and at least one valid message the headers are written, and
  \<^item> when the stream yields its deltas and ends, there is one object per delta and the
    terminal object is the final chunk, with empty content under the key of the endpoint
    and no \<^verbatim>\<open>error\<close>;
  \<^item> when the stream throws after its deltas, or the call itself throws, the terminal
    object is the error chunk, whose \<^verbatim>\<open>error\<close> is the failure message.
  The deltas a stream yields before it ends or throws are taken to be finitely many.
\<close>

theorem C3_stream_ends_with_single_done:
  assumes run: "handleModelGenerationRequest e s now body ex key [] = (calls, response)"
  shows "(ndjson_headers \<in> set response \<longrightarrow> stream_shape response)
    \<and> (destructure body = Inr (m, options, stream) \<and> truthy stream \<and>
       validateChatModel e m = Inr config \<and> ex body = Inr extracted \<and>
       prepareMessages (js_or extracted (JArr [])) = Inr vm \<and> vm \<noteq> [] \<and>
       stream_call config vm options = Inr call
       \<longrightarrow> ndjson_headers \<in> set response \<and>
           (\<forall>deltas r. streamText s call = Streams deltas None r \<longrightarrow>
              length (ndjson_objects response) = Suc (length deltas) \<and>
              last (ndjson_objects response)
                = final_chunk (model config) (now (Suc (length deltas))) key r \<and>
              js_get (last (ndjson_objects response)) ''error'' = Inr JUndefined \<and>
              (key = ''message'' \<or> key = ''response'' \<longrightarrow>
                 chunk_content key (last (ndjson_objects response)) = Inr (JStr []))) \<and>
           (\<forall>deltas err r. streamText s call = Streams deltas (Some err) r \<longrightarrow>
              length (ndjson_objects response) = Suc (length deltas) \<and>
              last (ndjson_objects response)
                = error_chunk (model config) (now (Suc (length deltas))) err \<and>
              js_get (last (ndjson_objects response)) ''error'' = Inr (JStr err)) \<and>
           (\<forall>err. streamText s call = CallThrows err \<longrightarrow>
              ndjson_objects response = [error_chunk (model config) (now 1) err] \<and>
              js_get (last (ndjson_objects response)) ''error'' = Inr (JStr err)))"
proof (intro conjI impI)
  assume h: "ndjson_headers \<in> set response"
  from handler_cases [OF run] show "stream_shape response"
  proof
    assume "\<exists>v status. response = sendJSON [] v status"
    with h have False by (auto simp: sendJSON_def ndjson_headers_def)
    then show ?thesis ..
  qed
next
  assume h: "destructure body = Inr (m, options, stream) \<and> truthy stream \<and>
       validateChatModel e m = Inr config \<and> ex body = Inr extracted \<and>
       prepareMessages (js_or extracted (JArr [])) = Inr vm \<and> vm \<noteq> [] \<and>
       stream_call config vm options = Inr call"
  then have hs: "destructure body = Inr (m, options, stream)" "truthy stream"
    "validateChatModel e m = Inr config" "ex body = Inr extracted"
    "prepareMessages (js_or extracted (JArr [])) = Inr vm" "vm \<noteq> []"
    by blast+
  have "snd (handleModelGenerationRequest e s now body ex key [])
               = snd (stream_body s now [ndjson_headers] config vm options key)"
    by (rule handler_streams [where ex = ex and body = body, OF hs])
  with run have r: "response = snd (stream_body s now [ndjson_headers] config vm options key)"
    by simp
  from h have call: "stream_call config vm options = Inr call" by simp
  from stream_body_shape [of s now config vm options key] r
  show "ndjson_headers \<in> set response" by (simp add: stream_shape_def) (metis list.set_intros(1))
  show "\<forall>deltas r. streamText s call = Streams deltas None r \<longrightarrow>
              length (ndjson_objects response) = Suc (length deltas) \<and>
              last (ndjson_objects response)
                = final_chunk (model config) (now (Suc (length deltas))) key r \<and>
              js_get (last (ndjson_objects response)) ''error'' = Inr JUndefined \<and>
              (key = ''message'' \<or> key = ''response'' \<longrightarrow>
                 chunk_content key (last (ndjson_objects response)) = Inr (JStr []))"
  proof (intro allI impI)
    fix deltas rr assume "streamText s call = Streams deltas None rr"
    from stream_body_outcomes(3) [OF call this, of now key] r obtain chunks where
      c: "length chunks = length deltas" "list_all not_done chunks"
         "response = ndjson_headers # map Write chunks
            @ [Write (final_chunk (model config) (now (Suc (length deltas))) key rr), End None]"
      by auto
    from stream_shapeI [OF c(3) c(2) final_chunk_facts(1)] c(1)
    show "length (ndjson_objects response) = Suc (length deltas) \<and>
              last (ndjson_objects response)
                = final_chunk (model config) (now (Suc (length deltas))) key rr \<and>
              js_get (last (ndjson_objects response)) ''error'' = Inr JUndefined \<and>
              (key = ''message'' \<or> key = ''response'' \<longrightarrow>
                 chunk_content key (last (ndjson_objects response)) = Inr (JStr []))"
      by (simp add: final_chunk_facts)
  qed
  show "\<forall>deltas err r. streamText s call = Streams deltas (Some err) r \<longrightarrow>
              length (ndjson_objects response) = Suc (length deltas) \<and>
              last (ndjson_objects response)
                = error_chunk (model config) (now (Suc (length deltas))) err \<and>
              js_get (last (ndjson_objects response)) ''error'' = Inr (JStr err)"
  proof (intro allI impI)
    fix deltas err rr assume "streamText s call = Streams deltas (Some err) rr"
    from stream_body_outcomes(2) [OF call this, of now key] r obtain chunks where
      c: "length chunks = length deltas" "list_all not_done chunks"
         "response = ndjson_headers # map Write chunks
            @ [Write (error_chunk (model config) (now (Suc (length deltas))) err), End None]"
      by auto
    from stream_shapeI [OF c(3) c(2) error_chunk_facts(1)] c(1)
    show "length (ndjson_objects response) = Suc (length deltas) \<and>
              last (ndjson_objects response)
                = error_chunk (model config) (now (Suc (length deltas))) err \<and>
              js_get (last (ndjson_objects response)) ''error'' = Inr (JStr err)"
      by (simp add: error_chunk_facts)
  qed
  show "\<forall>err. streamText s call = CallThrows err \<longrightarrow>
              ndjson_objects response = [error_chunk (model config) (now 1) err] \<and>
              js_get (last (ndjson_objects response)) ''error'' = Inr (JStr err)"
  proof (intro allI impI)
    fix err assume "streamText s call = CallThrows err"
    from stream_body_outcomes(1) [OF call this, of now key] r
    have c: "response = ndjson_headers # map Write []
               @ [Write (error_chunk (model config) (now 1) err), End None]"
      by simp
    have "list_all not_done []" by simp
    from stream_shapeI [OF c this error_chunk_facts(1)]
    show "ndjson_objects response = [error_chunk (model config) (now 1) err] \<and>
              js_get (last (ndjson_objects response)) ''error'' = Inr (JStr err)"
      by (simp add: error_chunk_facts)
  qed
qed

lemma stream_chat_parts:
  "destructure stream_chat = Inr (JStr ''gemini-2.5-flash'', JObj [], JBool True)"
  "validateChatModel example_env (JStr ''gemini-2.5-flash'') = Inr gemini_chat"
  "chat_messages stream_chat = Inr (JArr example_messages)"
  "prepareMessages (js_or (JArr example_messages) (JArr [])) = Inr (messages prepared_call)"
  "stream_call gemini_chat (messages prepared_call) (JObj []) = Inr prepared_call"
  by (simp_all add: destructure_def stream_chat_def or_empty_object_def validateChatModel_def
      example_env_def gemini_chat_def chat_messages_def js_or_def example_messages_prepared
      prepared_call_def stream_call_def)

lemma stream_chat_facts:
  "providers example_env (provider gemini_chat)"
  "model gemini_chat = ''gemini-2.5-flash''"
  "length (messages prepared_call) = 3"
  "streamText example_sdk call = Streams [''He'', ''llo''] None JUndefined"
  "streamText failing_sdk call = Streams [''He''] (Some ''socket hang up'') JUndefined"
  by (simp_all add: example_env_def gemini_chat_def prepared_call_def example_sdk_def
      failing_sdk_def)

lemma stream_chat_run:
  "handleModelGenerationRequest example_env example_sdk example_clock stream_chat chat_messages
     ''message'' []
   = ([prepared_call],
      [ndjson_headers,
       Write (delta_chunk ''gemini-2.5-flash'' ''2025-01-01T00:00:00.000Z'' ''message'' ''He''),
       Write (delta_chunk ''gemini-2.5-flash'' ''2025-01-01T00:00:00.000Z'' ''message'' ''llo''),
       Write (final_chunk ''gemini-2.5-flash'' ''2025-01-01T00:00:00.000Z'' ''message'' JUndefined),
       End None])"
  by (simp add: handleModelGenerationRequest_def generation_attempt_def stream_chat_parts
      stream_chat_facts streamResponse_def stream_body_def or_empty_object_def
      example_clock_def Let_def)

lemma stream_chat_fails:
  "handleModelGenerationRequest example_env failing_sdk example_clock stream_chat chat_messages
     ''message'' []
   = ([prepared_call],
      [ndjson_headers,
       Write (delta_chunk ''gemini-2.5-flash'' ''2025-01-01T00:00:00.000Z'' ''message'' ''He''),
       Write (error_chunk ''gemini-2.5-flash'' ''2025-01-01T00:00:00.000Z'' ''socket hang up''),
       End None])"
  by (simp add: handleModelGenerationRequest_def generation_attempt_def stream_chat_parts
      stream_chat_facts streamResponse_def stream_body_def stream_failed_def or_empty_object_def
      example_clock_def Let_def)

theorem C3_stream_ends_with_single_done_witness:
  "handleModelGenerationRequest example_env example_sdk example_clock stream_chat chat_messages
     ''message'' []
   = ([prepared_call],
      [ndjson_headers,
       Write (delta_chunk ''gemini-2.5-flash'' ''2025-01-01T00:00:00.000Z'' ''message'' ''He''),
       Write (delta_chunk ''gemini-2.5-flash'' ''2025-01-01T00:00:00.000Z'' ''message'' ''llo''),
       Write (final_chunk ''gemini-2.5-flash'' ''2025-01-01T00:00:00.000Z'' ''message'' JUndefined),
       End None]) \<and>
   handleModelGenerationRequest example_env failing_sdk example_clock stream_chat chat_messages
     ''message'' []
   = ([prepared_call],
      [ndjson_headers,
       Write (delta_chunk ''gemini-2.5-flash'' ''2025-01-01T00:00:00.000Z'' ''message'' ''He''),
       Write (error_chunk ''gemini-2.5-flash'' ''2025-01-01T00:00:00.000Z'' ''socket hang up''),
       End None]) \<and>
   stream_shape
     [ndjson_headers,
      Write (delta_chunk ''gemini-2.5-flash'' ''2025-01-01T00:00:00.000Z'' ''message'' ''He''),
      Write (delta_chunk ''gemini-2.5-flash'' ''2025-01-01T00:00:00.000Z'' ''message'' ''llo''),
      Write (final_chunk ''gemini-2.5-flash'' ''2025-01-01T00:00:00.000Z'' ''message'' JUndefined),
      End None] \<and>
   chunk_content ''message''
     (final_chunk ''gemini-2.5-flash'' ''2025-01-01T00:00:00.000Z'' ''message'' JUndefined)
     = Inr (JStr []) \<and>
   stream_shape
     [ndjson_headers,
      Write (delta_chunk ''gemini-2.5-flash'' ''2025-01-01T00:00:00.000Z'' ''message'' ''He''),
      Write (error_chunk ''gemini-2.5-flash'' ''2025-01-01T00:00:00.000Z'' ''socket hang up''),
      End None] \<and>
   js_get (error_chunk ''gemini-2.5-flash'' ''2025-01-01T00:00:00.000Z'' ''socket hang up'') ''error''
     = Inr (JStr ''socket hang up'')"
proof -
  let ?ok = "[ndjson_headers,
      Write (delta_chunk ''gemini-2.5-flash'' ''2025-01-01T00:00:00.000Z'' ''message'' ''He''),
      Write (delta_chunk ''gemini-2.5-flash'' ''2025-01-01T00:00:00.000Z'' ''message'' ''llo''),
      Write (final_chunk ''gemini-2.5-flash'' ''2025-01-01T00:00:00.000Z'' ''message'' JUndefined),
      End None]"
  let ?bad = "[ndjson_headers,
      Write (delta_chunk ''gemini-2.5-flash'' ''2025-01-01T00:00:00.000Z'' ''message'' ''He''),
      Write (error_chunk ''gemini-2.5-flash'' ''2025-01-01T00:00:00.000Z'' ''socket hang up''),
      End None]"
  have hyp: "destructure stream_chat = Inr (JStr ''gemini-2.5-flash'', JObj [], JBool True) \<and>
       truthy (JBool True) \<and>
       validateChatModel example_env (JStr ''gemini-2.5-flash'') = Inr gemini_chat \<and>
       chat_messages stream_chat = Inr (JArr example_messages) \<and>
       prepareMessages (js_or (JArr example_messages) (JArr [])) = Inr (messages prepared_call) \<and>
       messages prepared_call \<noteq> [] \<and>
       stream_call gemini_chat (messages prepared_call) (JObj []) = Inr prepared_call"
    by (simp add: stream_chat_parts) (simp add: prepared_call_def)
  have s1: "streamText example_sdk prepared_call = Streams [''He'', ''llo''] None JUndefined"
    by (simp add: example_sdk_def)
  have s2: "streamText failing_sdk prepared_call = Streams [''He''] (Some ''socket hang up'') JUndefined"
    by (simp add: failing_sdk_def)
  have m: "model gemini_chat = ''gemini-2.5-flash''" by (simp add: gemini_chat_def)
  note ok = C3_stream_ends_with_single_done
              [OF stream_chat_run,
               where m = "JStr ''gemini-2.5-flash''" and options = "JObj []"
                 and stream = "JBool True" and config = gemini_chat
                 and extracted = "JArr example_messages" and vm = "messages prepared_call"
                 and call = prepared_call]
  note bad = C3_stream_ends_with_single_done
              [OF stream_chat_fails,
               where m = "JStr ''gemini-2.5-flash''" and options = "JObj []"
                 and stream = "JBool True" and config = gemini_chat
                 and extracted = "JArr example_messages" and vm = "messages prepared_call"
                 and call = prepared_call]
  from ok hyp have a: "stream_shape ?ok" by blast
  from ok hyp s1 have "chunk_content ''message'' (last (ndjson_objects ?ok)) = Inr (JStr [])"
    by blast
  then have b: "chunk_content ''message''
     (final_chunk ''gemini-2.5-flash'' ''2025-01-01T00:00:00.000Z'' ''message'' JUndefined)
     = Inr (JStr [])"
    by (simp add: ndjson_objects_simps ndjson_headers_def)
  from bad hyp have c: "stream_shape ?bad" by blast
  from bad hyp s2 have "js_get (last (ndjson_objects ?bad)) ''error'' = Inr (JStr ''socket hang up'')"
    by blast
  then have d: "js_get (error_chunk ''gemini-2.5-flash'' ''2025-01-01T00:00:00.000Z''
                          ''socket hang up'') ''error''
                  = Inr (JStr ''socket hang up'')"
    by (simp add: ndjson_objects_simps ndjson_headers_def)
  from a b c d stream_chat_run stream_chat_fails show ?thesis by blast
qed

subsection \<open>A failed item aborts the batch\<close>

lemma aborted_atI:
  assumes accepted: "validateEmbeddingRequest e body = Inr req"
    and google: "provider (modelConfig req) = ''google''"
    and key: "env_truthy (GEMINI_API_KEY e)"
    and k: "k < length (inputTexts req)"
    and before: "\<forall>j < k. \<exists>v. embed_one up (modelConfig req) j (inputTexts req ! j) = Inr v"
    and fails: "embed_one up (modelConfig req) k (inputTexts req ! k) = Inl err"
  shows "aborted_at e up timestamp body req k err"
proof -
  let ?texts = "inputTexts req" and ?cfg = "modelConfig req"
  from before have b: "\<forall>j < k. \<exists>v. embed_one up ?cfg (0 + j) (?texts ! j) = Inr v" by simp
  from fails have f: "embed_one up ?cfg (0 + k) (?texts ! k) = Inl err" by simp
  have loop: "embed_loop up ?cfg ?texts 0 [] []
                = ([] @ map (the_call ?cfg) (take (Suc k) ?texts), Inl err)"
    by (rule embed_loop_fails [OF k b f])
  have gen: "generateEmbeddings e up ?cfg ?texts
               = (map (the_call ?cfg) (take (Suc k) ?texts), Inl err)"
    using google key loop by (simp add: generateEmbeddings_def)
  have post: "post_api_embeddings e up timestamp body []
                = (map (the_call ?cfg) (take (Suc k) ?texts), handleEmbeddingError err [])"
    using accepted gen by (simp add: post_api_embeddings_def)
  from gen post show ?thesis
    by (simp add: aborted_at_def handleEmbeddingError_fresh classify_status)
qed

lemma embed_one_vector:
  assumes "up i (the_call config t) = Ok reply" and "js_get reply ''embedding'' = Inr emb"
    and "js_get emb ''values'' = Inr (JArr v)"
  shows "embed_one up config i t = Inr (JArr v)"
  using assms js_get_values_truthy [OF assms(3)] by (simp add: embed_one_def)

text \<open>
  C4, amended. Take an accepted request for a Google model with the key present, and let
  the upstream answer the calls for the texts before index \<open>k\<close> with a reply that has an
  array under \<^verbatim>\<open>embedding.values\<close>. If the call for the text at index \<open>k\<close> throws, or
  answers with a status that is not OK, or answers with a reply that has no array under
  \<^verbatim>\<open>embedding.values\<close> (no \<^verbatim>\<open>embedding\<close>, no \<^verbatim>\<open>values\<close>, a value that is not an array, or a
  reply that is \<^verbatim>\<open>null\<close>), then the batch is aborted at \<open>k\<close> with the error of that item
  (\<open>aborted_at\<close>): the calls for the indices \<open>0..k\<close> are issued and no other,
  \<^verbatim>\<open>generateEmbeddings\<close> fails with that error, and the client receives the error envelope
  for it, with a status other than 200 and no vector.
\<close>

theorem C4_batch_aborts_on_detected_failure:
  assumes accepted: "validateEmbeddingRequest e body = Inr req"
    and google: "provider (modelConfig req) = ''google''"
    and key: "env_truthy (GEMINI_API_KEY e)"
    and k: "k < length (inputTexts req)"
    and before: "\<forall>j < k. \<exists>reply emb v.
                   up j (the_call (modelConfig req) (inputTexts req ! j)) = Ok reply \<and>
                   js_get reply ''embedding'' = Inr emb \<and>
                   js_get emb ''values'' = Inr (JArr v)"
  shows "(up k (the_call (modelConfig req) (inputTexts req ! k)) = Threw m \<longrightarrow>
            aborted_at e up timestamp body req k m)
    \<and> (up k (the_call (modelConfig req) (inputTexts req ! k)) = NotOk status errorData \<longrightarrow>
            aborted_at e up timestamp body req k
              (if status = 401
               then ''Google API authentication failed. Please check your GEMINI_API_KEY.''
               else if status = 429
               then ''Google API rate limit exceeded. Please try again later.''
               else if status = 400
               then ''Invalid request to Google API: '' @ errorData
               else ''Google API error ('' @ show_nat status @ ''): '' @ errorData))
    \<and> (up k (the_call (modelConfig req) (inputTexts req ! k)) = Ok reply \<and>
       js_get reply ''embedding'' = Inr emb \<and>
       (\<not> truthy emb \<or> (\<exists>v. js_get emb ''values'' = Inr v \<and> \<not> isArray v)) \<longrightarrow>
            aborted_at e up timestamp body req k
              (''Invalid embedding response for text '' @ show_nat (k + 1)
               @ '': missing or invalid embedding array''))
    \<and> (up k (the_call (modelConfig req) (inputTexts req ! k)) = Ok reply \<and>
       js_get reply ''embedding'' = Inl typeError \<longrightarrow>
            aborted_at e up timestamp body req k typeError)"
proof -
  let ?texts = "inputTexts req" and ?cfg = "modelConfig req"
  have b: "\<forall>j < k. \<exists>v. embed_one up ?cfg j (?texts ! j) = Inr v"
  proof (intro allI impI)
    fix j assume "j < k"
    with before obtain reply emb v where
      "up j (the_call ?cfg (?texts ! j)) = Ok reply" "js_get reply ''embedding'' = Inr emb"
      "js_get emb ''values'' = Inr (JArr v)"
      by blast
    from embed_one_vector [where up = up, OF this]
    show "\<exists>v. embed_one up ?cfg j (?texts ! j) = Inr v" by blast
  qed
  note abort = aborted_atI [where up = up and timestamp = timestamp, OF accepted google key k b]
  show ?thesis
  proof (intro conjI impI)
    assume "up k (the_call ?cfg (?texts ! k)) = Threw m"
    then have "embed_one up ?cfg k (?texts ! k) = Inl m" by (simp add: embed_one_def)
    then show "aborted_at e up timestamp body req k m" by (rule abort)
  next
    let ?err = "if status = 401
               then ''Google API authentication failed. Please check your GEMINI_API_KEY.''
               else if status = 429
               then ''Google API rate limit exceeded. Please try again later.''
               else if status = 400
               then ''Invalid request to Google API: '' @ errorData
               else ''Google API error ('' @ show_nat status @ ''): '' @ errorData"
    assume "up k (the_call ?cfg (?texts ! k)) = NotOk status errorData"
    then have "embed_one up ?cfg k (?texts ! k) = Inl ?err" by (simp add: embed_one_def)
    then show "aborted_at e up timestamp body req k ?err" by (rule abort)
  next
    let ?err = "''Invalid embedding response for text '' @ show_nat (k + 1)
               @ '': missing or invalid embedding array''"
    assume "up k (the_call ?cfg (?texts ! k)) = Ok reply \<and>
       js_get reply ''embedding'' = Inr emb \<and>
       (\<not> truthy emb \<or> (\<exists>v. js_get emb ''values'' = Inr v \<and> \<not> isArray v))"
    then have "embed_one up ?cfg k (?texts ! k) = Inl ?err"
      by (auto simp: embed_one_def)
    then show "aborted_at e up timestamp body req k ?err" by (rule abort)
  next
    assume "up k (the_call ?cfg (?texts ! k)) = Ok reply \<and>
       js_get reply ''embedding'' = Inl typeError"
    then have "embed_one up ?cfg k (?texts ! k) = Inl typeError" by (simp add: embed_one_def)
    then show "aborted_at e up timestamp body req k typeError" by (rule abort)
  qed
qed

lemma mid_fail_body_accepted:
  "validateEmbeddingRequest example_env mid_fail_body = Inr mid_fail_request"
  by (simp add: validateEmbeddingRequest_def mid_fail_body_def mid_fail_request_def
      example_env_def validateEmbeddingModel_def parse_inputs_def trim_def is_ws_def
      maxTexts_def maxTextLength_def google_embedding_def)

lemma classify_generic:
  "classify ''fetch failed'' = (500, ''Internal server error'')"
  "classify ''Invalid embedding response for text 2: missing or invalid embedding array''
     = (500, ''Internal server error'')"
  "classify ''Embedding at index 0 is empty'' = (500, ''Internal server error'')"
  by (simp_all add: classify_def js_includes_def sublist_Cons_right)

theorem C4_batch_aborts_on_detected_failure_witness:
  "aborted_at example_env (failing_upstream (Threw ''fetch failed''))
     ''2025-01-01T00:00:00.000Z'' mid_fail_body mid_fail_request 1 ''fetch failed'' \<and>
   aborted_at example_env (failing_upstream (NotOk 500 ''boom''))
     ''2025-01-01T00:00:00.000Z'' mid_fail_body mid_fail_request 1
     ''Google API error (500): boom'' \<and>
   aborted_at example_env (failing_upstream (Ok (JObj [(''embedding'', JObj [])])))
     ''2025-01-01T00:00:00.000Z'' mid_fail_body mid_fail_request 1
     ''Invalid embedding response for text 2: missing or invalid embedding array'' \<and>
   aborted_at example_env (failing_upstream (Ok JNull))
     ''2025-01-01T00:00:00.000Z'' mid_fail_body mid_fail_request 1
     (''Cannot read properties of null (reading '' @ squote @ ''embedding'' @ squote @ '')'') \<and>
   post_api_embeddings example_env (failing_upstream (NotOk 500 ''boom''))
       ''2025-01-01T00:00:00.000Z'' mid_fail_body []
     = ([the_call google_embedding ''Text 1'', the_call google_embedding ''Text 3''],
        [WriteHead 500 ''application/json'',
         End (Some (JObj [(''error'', JStr ''Internal server error'')]))])"
proof -
  have h2: "provider (modelConfig mid_fail_request) = ''google''"
    by (simp add: mid_fail_request_def google_embedding_def)
  have h3: "env_truthy (GEMINI_API_KEY example_env)"
    by (simp add: example_env_def)
  have h4: "1 < length (inputTexts mid_fail_request)"
    by (simp add: mid_fail_request_def)
  have h5: "\<forall>j < 1. \<exists>reply emb v.
              failing_upstream outcome j
                (the_call (modelConfig mid_fail_request) (inputTexts mid_fail_request ! j))
                = Ok reply \<and>
              js_get reply ''embedding'' = Inr emb \<and> js_get emb ''values'' = Inr (JArr v)"
    for outcome
    by (simp add: mid_fail_request_def failing_upstream_def example_upstream_def the_call_def
        vector_reply_def)
  have at: "failing_upstream outcome 1
              (the_call (modelConfig mid_fail_request) (inputTexts mid_fail_request ! 1)) = outcome"
    for outcome
    by (simp add: mid_fail_request_def failing_upstream_def the_call_def)
  note T = C4_batch_aborts_on_detected_failure
             [where e = example_env and body = mid_fail_body and req = mid_fail_request
                and k = 1 and timestamp = "''2025-01-01T00:00:00.000Z''"]
  from T [where up = "failing_upstream (Threw ''fetch failed'')" and m = "''fetch failed''",
          OF mid_fail_body_accepted h2 h3 h4 h5]
       at [of "Threw ''fetch failed''"]
  have a: "aborted_at example_env (failing_upstream (Threw ''fetch failed''))
     ''2025-01-01T00:00:00.000Z'' mid_fail_body mid_fail_request 1 ''fetch failed''"
    by blast
  from T [where up = "failing_upstream (NotOk 500 ''boom'')" and status = 500
            and errorData = "''boom''",
          OF mid_fail_body_accepted h2 h3 h4 h5]
       at [of "NotOk 500 ''boom''"]
  have b: "aborted_at example_env (failing_upstream (NotOk 500 ''boom''))
     ''2025-01-01T00:00:00.000Z'' mid_fail_body mid_fail_request 1
     ''Google API error (500): boom''"
    by (simp add: show_nat_500)
  have two: "show_nat (Suc (Suc 0)) = ''2''" by (simp add: show_nat_digit digit_def)
  from T [where up = "failing_upstream (Ok (JObj [(''embedding'', JObj [])]))"
            and reply = "JObj [(''embedding'', JObj [])]" and emb = "JObj []",
          OF mid_fail_body_accepted h2 h3 h4 h5]
       at [of "Ok (JObj [(''embedding'', JObj [])])"]
  have c: "aborted_at example_env (failing_upstream (Ok (JObj [(''embedding'', JObj [])])))
     ''2025-01-01T00:00:00.000Z'' mid_fail_body mid_fail_request 1
     ''Invalid embedding response for text 2: missing or invalid embedding array''"
    by (simp add: two)
  from T [where up = "failing_upstream (Ok JNull)" and reply = JNull
            and typeError = "''Cannot read properties of null (reading '' @ squote
                             @ ''embedding'' @ squote @ '')''",
          OF mid_fail_body_accepted h2 h3 h4 h5]
       at [of "Ok JNull"]
  have d: "aborted_at example_env (failing_upstream (Ok JNull))
     ''2025-01-01T00:00:00.000Z'' mid_fail_body mid_fail_request 1
     (''Cannot read properties of null (reading '' @ squote @ ''embedding'' @ squote @ '')'')"
    by simp
  from b have e: "post_api_embeddings example_env (failing_upstream (NotOk 500 ''boom''))
       ''2025-01-01T00:00:00.000Z'' mid_fail_body []
     = ([the_call google_embedding ''Text 1'', the_call google_embedding ''Text 3''],
        [WriteHead 500 ''application/json'',
         End (Some (JObj [(''error'', JStr ''Internal server error'')]))])"
    by (simp add: aborted_at_def classify_boom mid_fail_request_def)
  from a b c d e show ?thesis by blast
qed

text \<open>
  C4, as stated, fails when the invalid vector is an empty array: the loop only checks
  that \<^verbatim>\<open>embedding.values\<close> is an array. For a batch of three texts whose first call is
  answered with an empty array, the calls for the indices 1 and 2 are issued all the same;
  the request fails later, when the response is validated.
\<close>

theorem C4_empty_vector_counterexample:
  "empty_first_upstream 0 (the_call google_embedding ''Text 1'')
     = Ok (JObj [(''embedding'', JObj [(''values'', JArr [])])]) \<and>
   post_api_embeddings example_env empty_first_upstream ''2025-01-01T00:00:00.000Z''
       batch3_body []
     = ([the_call google_embedding ''Text 1'', the_call google_embedding ''Text 2'',
         the_call google_embedding ''Text 3''],
        [WriteHead 500 ''application/json'',
         End (Some (JObj [(''error'', JStr ''Internal server error'')]))])"
proof -
  have zero: "show_nat 0 = ''0''" by (simp add: show_nat_digit digit_def)
  have g: "generateEmbeddings example_env empty_first_upstream google_embedding
             [''Text 1'', ''Text 2'', ''Text 3'']
           = ([the_call google_embedding ''Text 1'', the_call google_embedding ''Text 2'',
               the_call google_embedding ''Text 3''],
              Inr \<lparr>embeddings = [JArr [], JArr [JNum ''0.3'', JNum ''0.4''],
                                  JArr [JNum ''0.3'', JNum ''0.4'']],
                   res_model = ''text-embedding-004'', dimensions = 0\<rparr>)"
    by (simp add: generateEmbeddings_def google_embedding_def example_env_def embed_one_def
        empty_first_upstream_def the_call_def vector_reply_def)
  have m: "js_get batch3_body ''model'' = Inr (JStr ''text-embedding-004'')"
    by (simp add: batch3_body_def)
  have p: "post_api_embeddings example_env empty_first_upstream ''2025-01-01T00:00:00.000Z''
             batch3_body []
           = ([the_call google_embedding ''Text 1'', the_call google_embedding ''Text 2'',
               the_call google_embedding ''Text 3''],
              handleEmbeddingError ''Embedding at index 0 is empty'' [])"
    by (simp add: post_api_embeddings_def batch3_body_accepted g m formatEmbeddingResponse_def
        validateEmbeddingResponse_def check_vectors_def zero)
  have u: "empty_first_upstream 0 (the_call google_embedding ''Text 1'')
             = Ok (JObj [(''embedding'', JObj [(''values'', JArr [])])])"
    by (simp add: empty_first_upstream_def the_call_def vector_reply_def)
  from p u show ?thesis
    by (simp add: handleEmbeddingError_fresh classify_generic)
qed

subsection \<open>Status of a validation failure, by endpoint\<close>







text \<open>For a model name that every object inherits the lookup in the registry does not
  fail; the request is answered as an unavailable provider.\<close>

lemma inherited_name_is_401:
  "post_api_embeddings example_env up timestamp constructor_body []
     = ([], error_response 401 ''Provider undefined not available'')"
proof -
  have "validateEmbeddingRequest example_env constructor_body
          = Inl ''Provider undefined not available''"
    by (simp add: validateEmbeddingRequest_def constructor_body_def validateEmbeddingModel_def
        example_env_def inherited_names_def)
  moreover have "classify ''Provider undefined not available''
                   = (401, ''Provider undefined not available'')"
    by (simp add: classify_def js_includes_def sublist_Cons_right)
  ultimately show ?thesis
    by (simp add: post_api_embeddings_def handleEmbeddingError_fresh error_response_def)
qed












end
